theory Spec2Isabelle
  imports Complex_Main "HOL-Library.Extended_Nat"
begin

section \<open>Tile layouts (lib/layouts.js)\<close>

text \<open>
  A layout is an array of three strings of \<open>0\<close>/\<open>1\<close> pixels. The exported object keeps its
  keys in insertion order, so it is an association list.
\<close>

type_synonym layout = "string list"

definition layouts :: "(string \<times> layout) list" where
  "layouts =
     [(''north'', [''010'', ''111'', ''000'']),
      (''east'',  [''010'', ''011'', ''010'']),
      (''south'', [''000'', ''111'', ''010'']),
      (''west'',  [''010'', ''110'', ''010'']),
      (''blank'', [''000'', ''000'', ''000''])]"

section \<open>Tiles (lib/class.tile.js)\<close>

text \<open>The four keys of \<open>this.neighbors\<close> and \<open>this.connections\<close>, in insertion order.\<close>

datatype dir = North | East | South | West

definition dirs :: "dir list" where
  "dirs = [North, East, South, West]"

record 'a nesw =
  north :: 'a
  east :: 'a
  south :: 'a
  west :: 'a

fun getDir :: "dir \<Rightarrow> 'a nesw \<Rightarrow> 'a" where
  "getDir North q = north q"
| "getDir East q = east q"
| "getDir South q = south q"
| "getDir West q = west q"

fun setDir :: "dir \<Rightarrow> 'a \<Rightarrow> 'a nesw \<Rightarrow> 'a nesw" where
  "setDir North v q = q\<lparr>north := v\<rparr>"
| "setDir East v q = q\<lparr>east := v\<rparr>"
| "setDir South v q = q\<lparr>south := v\<rparr>"
| "setDir West v q = q\<lparr>west := v\<rparr>"

text \<open>
  A neighbor status is \<open>false\<close> (uncollapsed), \<open>true\<close> (collapsed) or \<open>null\<close> (out of
  bounds): \<open>Some False\<close>, \<open>Some True\<close>, \<open>None\<close>. A connection is \<open>null\<close> or a string.
\<close>

record tile =
  position :: int
  collapsed :: bool
  facing :: string
  layout :: layout
  neighbors :: "bool option nesw"
  connections :: "string option nesw"
  possibleTiles :: "(string \<times> layout) list"

type_synonym board = "tile list"

text \<open>
  The errors the code can throw: the two \<open>Error\<close>s it constructs, and the \<open>TypeError\<close> of
  JavaScript for a property read on \<open>undefined\<close> or \<open>null\<close>.
\<close>

datatype error = Contradiction | NoSolution | TypeError

datatype 'a result = Returned 'a | Threw error

definition Tile :: "int \<Rightarrow> tile" where
  "Tile p =
     \<lparr>position = p, collapsed = False, facing = ''blank'',
      layout = the (map_of layouts ''blank''),
      neighbors = \<lparr>north = Some False, east = Some False, south = Some False, west = Some False\<rparr>,
      connections = \<lparr>north = None, east = None, south = None, west = None\<rparr>,
      possibleTiles = layouts\<rparr>"

definition isCollapsed :: "tile \<Rightarrow> bool" where
  "isCollapsed t = collapsed t"

definition getEntropy :: "tile \<Rightarrow> nat" where
  "getEntropy t = length (map snd (possibleTiles t))"

definition getConnector :: "tile \<Rightarrow> dir \<Rightarrow> string option" where
  "getConnector t direction = getDir direction (connections t)"

subsection \<open>JavaScript arithmetic and strings\<close>

text \<open>
  \<open>a % b\<close> on integers: the remainder has the sign of the dividend, and is \<open>NaN\<close> (here
  \<open>None\<close>) for a zero divisor. \<open>NaN != x\<close> is true, as \<open>None \<noteq> Some x\<close> is.
\<close>

definition js_rem :: "int \<Rightarrow> int \<Rightarrow> int option" where
  "js_rem a b = (if b = 0 then None else Some (sgn a * (\<bar>a\<bar> mod \<bar>b\<bar>)))"

text \<open>\<open>board[k]\<close> is a tile when \<open>k\<close> is an index of the array, and \<open>undefined\<close> otherwise.\<close>

definition inBoard :: "board \<Rightarrow> int \<Rightarrow> bool" where
  "inBoard board k = (k \<ge> 0 \<and> k < int (length board))"

text \<open>\<open>s.split(c)\<close> for a one-character separator; the empty string gives one empty piece.\<close>

fun js_split :: "char \<Rightarrow> string \<Rightarrow> string list" where
  "js_split c [] = [[]]"
| "js_split c (x # xs) =
     (if x = c then [] # js_split c xs
      else (case js_split c xs of [] \<Rightarrow> [[x]] | p # ps \<Rightarrow> (x # p) # ps))"

text \<open>\<open>s.split('1').length - 1 <= 1\<close>: the side has at most a single black pixel.\<close>

definition singlePixel :: "string \<Rightarrow> bool" where
  "singlePixel s = (int (length (js_split CHR ''1'' s)) - 1 \<le> 1)"

text \<open>\<open>s.charAt(i)\<close> is the empty string out of range.\<close>

definition charAt :: "string \<Rightarrow> nat \<Rightarrow> string" where
  "charAt s i = (if i < length s then [s ! i] else [])"

subsection \<open>findNeighbors\<close>

text \<open>The \<open>targetIndex\<close> of \<open>findNeighbors\<close>, with its default \<open>-1\<close> for east and west.\<close>

fun neighborIndex :: "int \<Rightarrow> int \<Rightarrow> dir \<Rightarrow> int" where
  "neighborIndex width p North = p - width"
| "neighborIndex width p East = (if js_rem (p + 1) width \<noteq> Some 0 then p + 1 else -1)"
| "neighborIndex width p South = p + width"
| "neighborIndex width p West = (if js_rem (p - 1) width \<noteq> Some (width - 1) then p - 1 else -1)"

definition findNeighbor :: "board \<Rightarrow> int \<Rightarrow> dir \<Rightarrow> tile \<Rightarrow> tile" where
  "findNeighbor board width d this =
     (if getDir d (neighbors this) = None then this
      else
        let targetIndex = neighborIndex width (position this) d
        in if inBoard board targetIndex
           then (if isCollapsed (board ! nat targetIndex)
                 then this\<lparr>neighbors := setDir d (Some True) (neighbors this)\<rparr>
                 else this)
           else this\<lparr>neighbors := setDir d None (neighbors this)\<rparr>)"

definition findNeighbors :: "board \<Rightarrow> int \<Rightarrow> tile \<Rightarrow> tile" where
  "findNeighbors board width this = fold (findNeighbor board width) dirs this"

subsection \<open>findPossibleTiles\<close>

text \<open>The unvalidated \<open>targetIndex\<close> of \<open>findPossibleTiles\<close> and of \<open>collapse\<close>.\<close>

fun targetIndex :: "int \<Rightarrow> int \<Rightarrow> dir \<Rightarrow> int" where
  "targetIndex width p North = p - width"
| "targetIndex width p East = p + 1"
| "targetIndex width p South = p + width"
| "targetIndex width p West = p - 1"

text \<open>The side of the neighbor that faces this tile.\<close>

fun opposite :: "dir \<Rightarrow> dir" where
  "opposite North = South"
| "opposite East = West"
| "opposite South = North"
| "opposite West = East"

text \<open>The side of a candidate layout in direction \<open>dir\<close>, as the inner loop builds it.\<close>

fun potentialConnectionStr :: "dir \<Rightarrow> layout \<Rightarrow> string" where
  "potentialConnectionStr North l = l ! 0"
| "potentialConnectionStr East l = concat (map (\<lambda>i. charAt (l ! i) 2) [0..<3])"
| "potentialConnectionStr South l = l ! 2"
| "potentialConnectionStr West l = concat (map (\<lambda>i. charAt (l ! i) 0) [0..<3])"

text \<open>\<open>delete obj[key]\<close> on an object kept as an association list.\<close>

definition deleteKey :: "string \<Rightarrow> (string \<times> layout) list \<Rightarrow> (string \<times> layout) list" where
  "deleteKey k pt = filter (\<lambda>e. fst e \<noteq> k) pt"

text \<open>The condition under which the inner loop deletes a candidate.\<close>

definition eliminates :: "string \<Rightarrow> dir \<Rightarrow> layout \<Rightarrow> bool" where
  "eliminates connector d l =
     (singlePixel connector \<and> singlePixel (potentialConnectionStr d l)
      \<and> potentialConnectionStr d l \<noteq> connector)"

text \<open>
  The inner loop runs over \<open>Object.entries(this.possibleTiles)\<close>, an array made before the
  first deletion, and deletes from the object by key.
\<close>

definition narrowEntries ::
  "string \<Rightarrow> dir \<Rightarrow> (string \<times> layout) list \<Rightarrow> (string \<times> layout) list \<Rightarrow> (string \<times> layout) list" where
  "narrowEntries connector d entries pt =
     fold (\<lambda>(direction, l) acc. if eliminates connector d l then deleteKey direction acc else acc)
       entries pt"

text \<open>
  One pass of the outer loop. Reading \<open>board[targetIndex]\<close> out of range, or a connector that
  is still \<open>null\<close>, throws a \<open>TypeError\<close> before anything is deleted in that pass.
\<close>

definition narrowDir :: "board \<Rightarrow> int \<Rightarrow> dir \<Rightarrow> tile \<Rightarrow> tile \<times> error option" where
  "narrowDir board width d this =
     (if getDir d (neighbors this) = Some True
      then
        let k = targetIndex width (position this) d
        in if inBoard board k
           then (case getConnector (board ! nat k) (opposite d) of
                   None \<Rightarrow> (this, Some TypeError)
                 | Some connector \<Rightarrow>
                     (this\<lparr>possibleTiles :=
                        narrowEntries connector d (possibleTiles this) (possibleTiles this)\<rparr>, None))
           else (this, Some TypeError)
      else (this, None))"

fun narrowDirs :: "board \<Rightarrow> int \<Rightarrow> dir list \<Rightarrow> tile \<Rightarrow> tile \<times> error option" where
  "narrowDirs board width [] this = (this, None)"
| "narrowDirs board width (d # ds) this =
     (case narrowDir board width d this of
        (this', Some e) \<Rightarrow> (this', Some e)
      | (this', None) \<Rightarrow> narrowDirs board width ds this')"

definition findPossibleTiles :: "board \<Rightarrow> int \<Rightarrow> tile \<Rightarrow> tile \<times> error option" where
  "findPossibleTiles board width this =
     (case narrowDirs board width dirs this of
        (this', Some e) \<Rightarrow> (this', Some e)
      | (this', None) \<Rightarrow>
          if \<not> isCollapsed this' \<and> length (map fst (possibleTiles this')) = 0
          then (this', Some Contradiction)
          else (this', None))"

subsection \<open>generateConnections\<close>

definition connectionStr :: "tile \<Rightarrow> dir \<Rightarrow> string" where
  "connectionStr this key =
     (if facing this = ''blank'' then ''000''
      else (case key of
              North \<Rightarrow> layout this ! 0
            | East \<Rightarrow> concat (map (\<lambda>i. charAt (layout this ! i) 2) [0..<length (layout this)])
            | South \<Rightarrow> layout this ! (length (layout this) - 1)
            | West \<Rightarrow> concat (map (\<lambda>i. charAt (layout this ! i) 0) [0..<length (layout this)])))"

definition generateConnections :: "tile \<Rightarrow> tile" where
  "generateConnections this =
     fold (\<lambda>key t. t\<lparr>connections := setDir key (Some (connectionStr t key)) (connections t)\<rparr>)
       dirs this"

subsection \<open>collapse\<close>

text \<open>
  \<open>Math.floor(Math.random() * n)\<close>, for the number \<open>rnd\<close> that \<open>Math.random()\<close> returned,
  taken as an exact real of the interval from 0 (included) to 1 (excluded).
\<close>

definition randomIndex :: "real \<Rightarrow> nat \<Rightarrow> nat" where
  "randomIndex rnd n = nat \<lfloor>rnd * real n\<rfloor>"

text \<open>
  One pass of the loop that tells the neighbors: the neighbor updates its neighbor values,
  then its possibilities; what it throws leaves the loop.
\<close>

definition notifyDir :: "board \<Rightarrow> int \<Rightarrow> nat \<Rightarrow> dir \<Rightarrow> board \<times> error option" where
  "notifyDir board width i d =
     (if getDir d (neighbors (board ! i)) = Some False
      then
        let k = targetIndex width (position (board ! i)) d
        in if inBoard board k
           then
             let board1 = board[nat k := findNeighbors board width (board ! nat k)];
                 (t, e) = findPossibleTiles board1 width (board1 ! nat k)
             in (board1[nat k := t], e)
           else (board, Some TypeError)
      else (board, None))"

fun cascade :: "board \<Rightarrow> int \<Rightarrow> nat \<Rightarrow> dir list \<Rightarrow> board \<times> error option" where
  "cascade board width i [] = (board, None)"
| "cascade board width i (d # ds) =
     (case notifyDir board width i d of
        (board', Some e) \<Rightarrow> (board', Some e)
      | (board', None) \<Rightarrow> cascade board' width i ds)"

text \<open>
  \<open>collapse\<close> of the tile at index \<open>i\<close> of the board. The two \<open>TypeError\<close> branches stand for
  a choice that is \<open>undefined\<close> (an index past the keys, which no \<open>rnd\<close> below 1 gives) and
  for a key that the layouts do not have.
\<close>

definition collapse :: "board \<Rightarrow> int \<Rightarrow> nat \<Rightarrow> real \<Rightarrow> board \<times> bool result" where
  "collapse board width i rnd =
     (let this = board ! i;
          possibleLayouts = map fst (possibleTiles this)
      in if length possibleLayouts \<noteq> 0
         then
           let k = randomIndex rnd (length possibleLayouts)
           in if k < length possibleLayouts
              then (case map_of layouts (possibleLayouts ! k) of
                      None \<Rightarrow> (board[i := this\<lparr>facing := possibleLayouts ! k\<rparr>], Threw TypeError)
                    | Some l \<Rightarrow>
                        let this' = (generateConnections (this\<lparr>facing := possibleLayouts ! k, layout := l\<rparr>))
                                      \<lparr>collapsed := True, possibleTiles := []\<rparr>
                        in (case cascade (board[i := this']) width i dirs of
                              (board', Some e) \<Rightarrow> (board', Threw e)
                            | (board', None) \<Rightarrow> (board', Returned True)))
              else (board, Threw TypeError)
         else (board, Returned False))"

section \<open>The driver (index.js)\<close>

record state =
  boardTiles :: board
  collapsedTiles :: nat

text \<open>\<open>Math.min(...xs)\<close> is \<open>Infinity\<close> for no argument.\<close>

definition Math_min :: "nat list \<Rightarrow> enat" where
  "Math_min xs = fold (\<lambda>x m. min (enat x) m) xs \<infinity>"

text \<open>
  \<open>chooseNextTile\<close> returns a tile of the board, here its index, or \<open>undefined\<close> when
  \<open>entropicTiles\<close> is empty.
\<close>

definition entropyArray :: "board \<Rightarrow> nat list" where
  "entropyArray board = map (\<lambda>currentTile. if isCollapsed currentTile then 0 else getEntropy currentTile) board"

definition entropicTiles :: "board \<Rightarrow> int list" where
  "entropicTiles board =
     (let m = Math_min (filter (\<lambda>item. item \<noteq> 0) (entropyArray board))
      in filter (\<lambda>v. v \<ge> 0)
           (map (\<lambda>(v, index). if enat v = m then int index else -1)
              (zip (entropyArray board) [0..<length board])))"

definition chooseNextTile :: "board \<Rightarrow> real \<Rightarrow> nat option" where
  "chooseNextTile board rnd =
     (let es = entropicTiles board
      in if length es = 1 then Some (nat (es ! 0))
         else
           let k = randomIndex rnd (length es)
           in if k < length es then Some (nat (es ! k)) else None)"

text \<open>
  \<open>iterateLoop\<close>: \<open>rnd1\<close> is the draw of \<open>chooseNextTile\<close>, \<open>rnd2\<close> the draw of \<open>collapse\<close>.
  Calling \<open>collapse\<close> on \<open>undefined\<close> is a \<open>TypeError\<close>. A tile sits at the index that is its
  position, so the write-back stores the tile where it already is.
\<close>

definition iterateLoop :: "state \<Rightarrow> int \<Rightarrow> real \<Rightarrow> real \<Rightarrow> state \<times> int result" where
  "iterateLoop st width rnd1 rnd2 =
     (case chooseNextTile (boardTiles st) rnd1 of
        None \<Rightarrow> (st, Threw TypeError)
      | Some i \<Rightarrow>
          (case collapse (boardTiles st) width i rnd2 of
             (board', Threw e) \<Rightarrow> (st\<lparr>boardTiles := board'\<rparr>, Threw e)
           | (board', Returned success) \<Rightarrow>
               if \<not> success then (st\<lparr>boardTiles := board'\<rparr>, Threw NoSolution)
               else
                 let nextTile = board' ! i;
                     board'' = (if inBoard board' (position nextTile)
                                then board'[nat (position nextTile) := nextTile] else board')
                 in (st\<lparr>boardTiles := board'', collapsedTiles := collapsedTiles st + 1\<rparr>,
                     Returned (position nextTile))))"

text \<open>\<open>doCollapse\<close> catches whatever \<open>iterateLoop\<close> throws and returns \<open>false\<close>.\<close>

definition doCollapse :: "state \<Rightarrow> int \<Rightarrow> real \<Rightarrow> real \<Rightarrow> state \<times> bool" where
  "doCollapse st width rnd1 rnd2 =
     (case iterateLoop st width rnd1 rnd2 of
        (st', Threw e) \<Rightarrow> (st', False)
      | (st', Returned newTilePos) \<Rightarrow> (st', True))"

text \<open>
  \<open>resetBoard\<close>, with the two global constants (both 30 in the source) as parameters: new
  tiles at every position, then each tile looks for its neighbors, in index order.
\<close>

definition resetBoard :: "nat \<Rightarrow> nat \<Rightarrow> state" where
  "resetBoard boardHeight boardWidth =
     (let newBoard = map (\<lambda>i. Tile (int i)) [0..<boardHeight * boardWidth]
      in \<lparr>boardTiles =
            fold (\<lambda>i b. b[i := findNeighbors b (int boardWidth) (b ! i)]) [0..<length newBoard] newBoard,
          collapsedTiles = 0\<rparr>)"

section \<open>Predicates used in the statements\<close>

text \<open>What a tile keeps through the neighbor and possibility updates: everything but its neighbor
  values, and no new candidate.\<close>

definition sameCore :: "tile \<Rightarrow> tile \<Rightarrow> bool" where
  "sameCore t t' =
     (position t' = position t \<and> collapsed t' = collapsed t \<and> facing t' = facing t
      \<and> layout t' = layout t \<and> connections t' = connections t
      \<and> set (possibleTiles t') \<subseteq> set (possibleTiles t))"

text \<open>
  The claimed invariant: the facing connectors of two adjacent collapsed tiles are both
  there, and are equal as soon as one of them has at most one black pixel. Adjacency is
  that of \<open>findNeighbors\<close>.
\<close>

definition facingEdgesMatch :: "board \<Rightarrow> int \<Rightarrow> bool" where
  "facingEdgesMatch board width =
     (\<forall>i \<in> {0..<length board}. \<forall>d \<in> set dirs.
        inBoard board (neighborIndex width (int i) d) \<and> collapsed (board ! i)
          \<and> collapsed (board ! nat (neighborIndex width (int i) d))
        \<longrightarrow> (case (getConnector (board ! i) d,
                     getConnector (board ! nat (neighborIndex width (int i) d)) (opposite d)) of
               (Some s, Some s') \<Rightarrow> singlePixel s \<or> singlePixel s' \<longrightarrow> s = s'
             | _ \<Rightarrow> False))"

text \<open>
  The boards that calls of \<open>collapse\<close> which return lead to, from the fresh board of
  \<open>resetBoard\<close>; the draw of \<open>Math.random()\<close> is at least 0 and below 1.
\<close>

inductive reachable :: "nat \<Rightarrow> nat \<Rightarrow> board \<Rightarrow> bool" for boardHeight boardWidth where
  fresh: "reachable boardHeight boardWidth (boardTiles (resetBoard boardHeight boardWidth))"
| step: "reachable boardHeight boardWidth board \<Longrightarrow> i < length board \<Longrightarrow> 0 \<le> rnd \<Longrightarrow> rnd < 1 \<Longrightarrow>
         collapse board (int boardWidth) i rnd = (board', Returned r) \<Longrightarrow>
         reachable boardHeight boardWidth board'"







definition pendingOf :: "int \<Rightarrow> tile \<Rightarrow> dir list \<Rightarrow> nat set" where
  "pendingOf w t ds =
     {k. \<exists>d \<in> set ds. getDir d (neighbors t) = Some False \<and> targetIndex w (position t) d = int k}"

definition sameFlags :: "board \<Rightarrow> board \<Rightarrow> bool" where
  "sameFlags b b' =
     (length b' = length b
      \<and> (\<forall>j<length b. collapsed (b' ! j) = collapsed (b ! j) \<and> connections (b' ! j) = connections (b ! j)))"

section \<open>Basic facts\<close>

lemma getDir_setDir: "getDir d (setDir d' v q) = (if d = d' then v else getDir d q)"
  by (cases d; cases d') simp_all

lemma upt_0_3: "[0..<3] = [0, 1, 2]"
  by code_simp

lemma dir_cases4: "P North \<Longrightarrow> P East \<Longrightarrow> P South \<Longrightarrow> P West \<Longrightarrow> P d"
  by (cases d) simp_all

lemma generateConnections_fields:
  "position (generateConnections t) = position t"
  "collapsed (generateConnections t) = collapsed t"
  "facing (generateConnections t) = facing t"
  "layout (generateConnections t) = layout t"
  "neighbors (generateConnections t) = neighbors t"
  "possibleTiles (generateConnections t) = possibleTiles t"
  by (simp_all add: generateConnections_def dirs_def)

lemma generateConnections_connector:
  "getConnector (generateConnections t) d = Some (connectionStr t d)"
  by (cases d) (simp_all add: generateConnections_def getConnector_def dirs_def connectionStr_def)

lemma connectionStr_layouts:
  "(k, l) \<in> set layouts \<Longrightarrow> facing t = k \<Longrightarrow> layout t = l \<Longrightarrow>
   connectionStr t d = potentialConnectionStr d l"
  by (cases d) (auto simp: layouts_def connectionStr_def upt_0_3 charAt_def)


lemma findNeighbor_fields:
  "position (findNeighbor b w d t) = position t"
  "collapsed (findNeighbor b w d t) = collapsed t"
  "facing (findNeighbor b w d t) = facing t"
  "layout (findNeighbor b w d t) = layout t"
  "connections (findNeighbor b w d t) = connections t"
  "possibleTiles (findNeighbor b w d t) = possibleTiles t"
  by (simp_all add: findNeighbor_def Let_def)

lemma findNeighbor_neighbors:
  "getDir d' (neighbors (findNeighbor b w d t)) =
     (if d' \<noteq> d then getDir d' (neighbors t)
      else if getDir d (neighbors t) = None then None
      else if inBoard b (neighborIndex w (position t) d)
           then (if collapsed (b ! nat (neighborIndex w (position t) d)) then Some True
                 else getDir d (neighbors t))
           else None)"
  by (simp add: findNeighbor_def Let_def getDir_setDir isCollapsed_def)

lemma findNeighbors_fields:
  "position (findNeighbors b w t) = position t"
  "collapsed (findNeighbors b w t) = collapsed t"
  "facing (findNeighbors b w t) = facing t"
  "layout (findNeighbors b w t) = layout t"
  "connections (findNeighbors b w t) = connections t"
  "possibleTiles (findNeighbors b w t) = possibleTiles t"
  by (simp_all add: findNeighbors_def dirs_def findNeighbor_fields)

lemma findNeighbors_neighbors:
  "getDir d (neighbors (findNeighbors b w t)) =
     (if getDir d (neighbors t) = None then None
      else if inBoard b (neighborIndex w (position t) d)
           then (if collapsed (b ! nat (neighborIndex w (position t) d)) then Some True
                 else getDir d (neighbors t))
           else None)"
  by (cases d) (simp_all add: findNeighbors_def dirs_def findNeighbor_neighbors findNeighbor_fields)

lemma js_rem_nonneg: "0 \<le> a \<Longrightarrow> 0 < b \<Longrightarrow> js_rem a b = Some (a mod b)"
  by (simp add: js_rem_def sgn_if)

lemma mod_pred: 
  fixes p w :: int
  assumes "0 < w" "p mod w = 0"
  shows "(p - 1) mod w = w - 1"
proof -
  obtain q where "p = w * q" using assms(2) by auto
  then have "p - 1 = (w - 1) + w * (q - 1)" by (simp add: algebra_simps)
  then have "(p - 1) mod w = (w - 1) mod w" by (metis mod_mult_self2)
  moreover have "(w - 1) mod w = w - 1" using assms(1) by (intro mod_pos_pos_trivial) auto
  ultimately show ?thesis by simp
qed

lemma div_succ:
  fixes p w :: int
  assumes "0 < w" "(p + 1) mod w \<noteq> 0"
  shows "(p + 1) div w = p div w"
proof -
  let ?q = "p div w" and ?r = "p mod w"
  have r: "0 \<le> ?r" "?r < w" using assms(1) by simp_all
  have p: "w * ?q + ?r = p" by simp
  have "?r + 1 \<noteq> w"
  proof
    assume "?r + 1 = w"
    with p have "p + 1 = w * ?q + w" by linarith
    then have "(p + 1) mod w = 0" by simp
    with assms(2) show False by simp
  qed
  with r have "?r + 1 < w" by simp
  moreover have "p + 1 = w * ?q + (?r + 1)" using p by linarith
  ultimately show ?thesis using r(1) by (intro int_div_pos_eq [of _ w]) auto
qed

lemma div_pred:
  fixes p w :: int
  assumes "0 < w" "(p - 1) mod w \<noteq> w - 1"
  shows "(p - 1) div w = p div w"
proof -
  have "p mod w \<noteq> 0" using assms mod_pred [of w p] by auto
  then have "((p - 1) + 1) mod w \<noteq> 0" by simp
  from div_succ [OF assms(1) this] show ?thesis by simp
qed

lemma neighborIndex_West_first:
  assumes "0 < w" "0 \<le> p" "js_rem p w = Some 0"
  shows "neighborIndex w p West = -1"
proof (cases "p = 0")
  case True
  then show ?thesis using assms by (cases "w = 1") (simp_all add: js_rem_def)
next
  case False
  with assms have "0 \<le> p - 1" "p mod w = 0" by (simp_all add: js_rem_nonneg)
  then show ?thesis using assms mod_pred [of w p] by (simp add: js_rem_nonneg)
qed

lemma neighborIndex_East_row:
  assumes "0 < w" "0 \<le> p" "inBoard b (neighborIndex w p East)"
  shows "(p + 1) div w = p div w"
proof -
  have "(p + 1) mod w \<noteq> 0" using assms by (simp add: js_rem_nonneg inBoard_def split: if_splits)
  then show ?thesis using assms(1) by (rule div_succ [rotated])
qed

lemma neighborIndex_West_row:
  assumes "0 < w" "0 \<le> p" "inBoard b (neighborIndex w p West)"
  shows "(p - 1) div w = p div w"
proof -
  have "0 \<le> p - 1" and "js_rem (p - 1) w \<noteq> Some (w - 1)"
    using assms by (simp_all add: inBoard_def split: if_splits)
  then have "(p - 1) mod w \<noteq> w - 1" using assms(1) js_rem_nonneg [of "p - 1" w] by simp
  then show ?thesis using assms(1) by (rule div_pred [rotated])
qed

section \<open>The two computations of a connection string\<close>

text \<open>
  Claim C9. The two computations of a side agree on the layouts: for every entry of
  \<open>layouts\<close>, \<open>blank\<close> included, and every direction, the connection string that
  \<open>generateConnections\<close> stores for a tile with that facing and layout is the
  \<open>potentialConnectionStr\<close> that \<open>findPossibleTiles\<close> builds from the same layout.
\<close>

theorem connections_agree:
  "\<forall>(k, l) \<in> set layouts. \<forall>d.
     getConnector (generateConnections (t\<lparr>facing := k, layout := l\<rparr>)) d
       = Some (potentialConnectionStr d l)"
  by (auto simp: generateConnections_connector connectionStr_layouts)

theorem connections_agree_witness:
  "(''blank'', [''000'', ''000'', ''000'']) \<in> set layouts
   \<and> getConnector (generateConnections (Tile 0\<lparr>facing := ''blank'', layout := [''000'', ''000'', ''000'']\<rparr>)) East
       = Some ''000''"
proof -
  have m: "(''blank'', [''000'', ''000'', ''000'']) \<in> set layouts"
    by (simp add: layouts_def)
  have "potentialConnectionStr East [''000'', ''000'', ''000''] = ''000''"
    by (simp add: upt_0_3 charAt_def)
  with m connections_agree [of "Tile 0"] show ?thesis by fastforce
qed

section \<open>The topology guard\<close>

text \<open>
  Claim C6. On a board of positive width, after \<open>findNeighbors\<close> a tile of the last column
  has no east neighbor and a tile of the first column, position 0 included, has no west
  neighbor, whatever its neighbor values were before and whatever holds to the north and
  south; and an east or west neighbor that is not out of bounds lies in the tile's own row.
\<close>

theorem topology_guard:
  assumes "0 < width" and "inBoard board (position this)"
  shows "(js_rem (position this + 1) width = Some 0 \<longrightarrow>
            getDir East (neighbors (findNeighbors board width this)) = None)
       \<and> (js_rem (position this) width = Some 0 \<longrightarrow>
            getDir West (neighbors (findNeighbors board width this)) = None)
       \<and> (getDir East (neighbors (findNeighbors board width this)) \<noteq> None \<longrightarrow>
            (position this + 1) div width = position this div width)
       \<and> (getDir West (neighbors (findNeighbors board width this)) \<noteq> None \<longrightarrow>
            (position this - 1) div width = position this div width)"
proof -
  have p: "0 \<le> position this" using assms(2) by (simp add: inBoard_def)
  have e: "js_rem (position this + 1) width = Some 0 \<Longrightarrow>
             getDir East (neighbors (findNeighbors board width this)) = None"
    by (simp add: findNeighbors_neighbors inBoard_def)
  have w: "js_rem (position this) width = Some 0 \<Longrightarrow>
             getDir West (neighbors (findNeighbors board width this)) = None"
    using neighborIndex_West_first [OF assms(1) p]
    by (simp add: findNeighbors_neighbors inBoard_def del: neighborIndex.simps)
  have e': "getDir East (neighbors (findNeighbors board width this)) \<noteq> None \<Longrightarrow>
             (position this + 1) div width = position this div width"
    using neighborIndex_East_row [OF assms(1) p, of board]
    by (simp add: findNeighbors_neighbors del: neighborIndex.simps split: if_splits)
  have w': "getDir West (neighbors (findNeighbors board width this)) \<noteq> None \<Longrightarrow>
             (position this - 1) div width = position this div width"
    using neighborIndex_West_row [OF assms(1) p, of board]
    by (simp add: findNeighbors_neighbors del: neighborIndex.simps split: if_splits)
  from e w e' w' show ?thesis by blast
qed

theorem topology_guard_witness:
  "getDir East (neighbors (findNeighbors [Tile 0, Tile 1, Tile 2, Tile 3] 2 (Tile 1))) = None
   \<and> getDir West (neighbors (findNeighbors [Tile 0, Tile 1, Tile 2, Tile 3] 2 (Tile 2))) = None
   \<and> getDir West (neighbors (findNeighbors [Tile 0, Tile 1, Tile 2, Tile 3] 2 (Tile 0))) = None
   \<and> getDir East (neighbors (findNeighbors [Tile 0, Tile 1, Tile 2, Tile 3] 2 (Tile 2))) \<noteq> None
   \<and> ((2::int) + 1) div 2 = 2 div 2
   \<and> getDir West (neighbors (findNeighbors [Tile 0, Tile 1, Tile 2, Tile 3] 2 (Tile 1))) \<noteq> None
   \<and> ((1::int) - 1) div 2  = 1 div 2"
proof -
  let ?b = "[Tile 0, Tile 1, Tile 2, Tile 3]"
  have w: "(0::int) < 2" by simp
  have i1: "inBoard ?b (position (Tile 1))" and i2: "inBoard ?b (position (Tile 2))"
    and i0: "inBoard ?b (position (Tile 0))"
    by (simp_all add: inBoard_def Tile_def)
  have r1: "js_rem (position (Tile 1) + 1) 2 = Some 0" and r2: "js_rem (position (Tile 2)) 2 = Some 0"
    and r0: "js_rem (position (Tile 0)) 2 = Some 0"
    by (simp_all add: js_rem_def Tile_def)
  have n1: "getDir East (neighbors (findNeighbors ?b 2 (Tile 2))) \<noteq> None"
    and n2: "getDir West (neighbors (findNeighbors ?b 2 (Tile 1))) \<noteq> None"
    by code_simp+
  have p: "position (Tile 1) = 1" "position (Tile 2) = 2" by (simp_all add: Tile_def)
  from topology_guard [OF w i1] topology_guard [OF w i2] topology_guard [OF w i0] r1 r2 r0 n1 n2
  show ?thesis
    unfolding p by blast
qed

section \<open>Narrowing and the cascade\<close>

lemma narrowEntries_filter:
  "narrowEntries connector d entries pt =
     filter (\<lambda>e. fst e \<notin> fst ` {x \<in> set entries. eliminates connector d (snd x)}) pt"
proof -
  have "fold (\<lambda>(direction, l) acc. if eliminates connector d l then deleteKey direction acc else acc)
          entries pt =
        filter (\<lambda>e. fst e \<notin> fst ` {x \<in> set entries. eliminates connector d (snd x)}) pt"
  proof (induction entries arbitrary: pt)
    case Nil
    then show ?case by simp
  next
    case (Cons x xs)
    obtain k l where x: "x = (k, l)" by (cases x)
    show ?case
    proof (cases "eliminates connector d l")
      case True
      have "filter (\<lambda>e. fst e \<notin> fst ` {y \<in> set xs. eliminates connector d (snd y)}) (deleteKey k pt)
            = filter (\<lambda>e. fst e \<notin> fst ` {y \<in> set (x # xs). eliminates connector d (snd y)}) pt"
        unfolding deleteKey_def filter_filter using True x
        by (intro filter_cong refl) force
      with True x Cons.IH [of "deleteKey k pt"] show ?thesis by simp
    next
      case False
      have "{y \<in> set (x # xs). eliminates connector d (snd y)} = {y \<in> set xs. eliminates connector d (snd y)}"
        using False x by auto
      with False x Cons.IH [of pt] show ?thesis by simp
    qed
  qed
  then show ?thesis by (simp add: narrowEntries_def)
qed

lemma narrowEntries_self:
  assumes "distinct (map fst pt)"
  shows "narrowEntries connector d pt pt = filter (\<lambda>e. \<not> eliminates connector d (snd e)) pt"
proof -
  have "\<And>e. e \<in> set pt \<Longrightarrow>
          (fst e \<notin> fst ` {x \<in> set pt. eliminates connector d (snd x)}) = (\<not> eliminates connector d (snd e))"
  proof -
    fix e assume e: "e \<in> set pt"
    from assms have "inj_on fst (set pt)" by (simp add: distinct_map)
    then have "\<And>x. x \<in> set pt \<Longrightarrow> fst x = fst e \<Longrightarrow> x = e"
      using e by (auto dest: inj_onD)
    then show "(fst e \<notin> fst ` {x \<in> set pt. eliminates connector d (snd x)}) = (\<not> eliminates connector d (snd e))"
      using e by force
  qed
  then show ?thesis unfolding narrowEntries_filter by (intro filter_cong refl)
qed

lemma narrowEntries_subset: "set (narrowEntries connector d entries pt) \<subseteq> set pt"
  by (simp add: narrowEntries_filter)

lemma narrowEntries_Nil [simp]: "narrowEntries connector d entries [] = []"
  by (simp add: narrowEntries_filter)


lemma narrowDir_fields:
  "position (fst (narrowDir b w d t)) = position t"
  "collapsed (fst (narrowDir b w d t)) = collapsed t"
  "facing (fst (narrowDir b w d t)) = facing t"
  "layout (fst (narrowDir b w d t)) = layout t"
  "neighbors (fst (narrowDir b w d t)) = neighbors t"
  "connections (fst (narrowDir b w d t)) = connections t"
  by (simp_all add: narrowDir_def Let_def split: option.splits)

lemma narrowDir_subset: "set (possibleTiles (fst (narrowDir b w d t))) \<subseteq> set (possibleTiles t)"
  using narrowEntries_subset by (simp add: narrowDir_def Let_def split: option.splits)

lemma narrowDir_error: "snd (narrowDir b w d t) = Some e \<Longrightarrow> e = TypeError"
  by (simp add: narrowDir_def Let_def split: option.splits if_splits)

lemma narrowDirs_fields:
  "position (fst (narrowDirs b w ds t)) = position t"
  "collapsed (fst (narrowDirs b w ds t)) = collapsed t"
  "facing (fst (narrowDirs b w ds t)) = facing t"
  "layout (fst (narrowDirs b w ds t)) = layout t"
  "neighbors (fst (narrowDirs b w ds t)) = neighbors t"
  "connections (fst (narrowDirs b w ds t)) = connections t"
  by (induction ds arbitrary: t; simp split: prod.splits option.splits; 
      metis narrowDir_fields fst_conv)+

lemma narrowDirs_subset: "set (possibleTiles (fst (narrowDirs b w ds t))) \<subseteq> set (possibleTiles t)"
proof (induction ds arbitrary: t)
  case Nil
  then show ?case by simp
next
  case (Cons d ds)
  obtain t' e where n: "narrowDir b w d t = (t', e)" by (cases "narrowDir b w d t")
  with narrowDir_subset [of b w d t] have s: "set (possibleTiles t') \<subseteq> set (possibleTiles t)" by simp
  show ?case using n s Cons.IH [of t'] by (cases e) auto
qed

lemma narrowDirs_error: "snd (narrowDirs b w ds t) = Some e \<Longrightarrow> e = TypeError"
proof (induction ds arbitrary: t)
  case Nil
  then show ?case by simp
next
  case (Cons d ds)
  obtain t' e' where n: "narrowDir b w d t = (t', e')" by (cases "narrowDir b w d t")
  show ?case using n Cons narrowDir_error [of b w d t] by (cases e') auto
qed

lemma findPossibleTiles_tile: "fst (findPossibleTiles b w t) = fst (narrowDirs b w dirs t)"
  by (simp add: findPossibleTiles_def split: prod.splits option.splits)

lemma findPossibleTiles_fields:
  "position (fst (findPossibleTiles b w t)) = position t"
  "collapsed (fst (findPossibleTiles b w t)) = collapsed t"
  "facing (fst (findPossibleTiles b w t)) = facing t"
  "layout (fst (findPossibleTiles b w t)) = layout t"
  "neighbors (fst (findPossibleTiles b w t)) = neighbors t"
  "connections (fst (findPossibleTiles b w t)) = connections t"
  by (simp_all add: findPossibleTiles_tile narrowDirs_fields)

lemma findPossibleTiles_subset:
  "set (possibleTiles (fst (findPossibleTiles b w t))) \<subseteq> set (possibleTiles t)"
  by (simp add: findPossibleTiles_tile narrowDirs_subset)

lemma sameCore_refl [simp]: "sameCore t t"
  by (simp add: sameCore_def)

lemma sameCore_trans: "sameCore t t' \<Longrightarrow> sameCore t' t'' \<Longrightarrow> sameCore t t''"
  by (auto simp: sameCore_def)

lemma sameCore_findNeighbors: "sameCore t (findNeighbors b w t)"
  by (simp add: sameCore_def findNeighbors_fields)

lemma sameCore_findPossibleTiles: "sameCore t (fst (findPossibleTiles b w t))"
  by (simp add: sameCore_def findPossibleTiles_fields findPossibleTiles_subset)

lemma notifyDir_cases:
  obtains (skip) "getDir d (neighbors (b ! i)) \<noteq> Some False" "notifyDir b w i d = (b, None)"
  | (undef) "getDir d (neighbors (b ! i)) = Some False"
      "\<not> inBoard b (targetIndex w (position (b ! i)) d)" "notifyDir b w i d = (b, Some TypeError)"
  | (tell) k where "getDir d (neighbors (b ! i)) = Some False"
      "targetIndex w (position (b ! i)) d = int k" "k < length b"
      "notifyDir b w i d =
         (b[k := fst (findPossibleTiles (b[k := findNeighbors b w (b ! k)]) w (findNeighbors b w (b ! k)))],
          snd (findPossibleTiles (b[k := findNeighbors b w (b ! k)]) w (findNeighbors b w (b ! k))))"
proof (cases "getDir d (neighbors (b ! i)) = Some False")
  case False
  then show ?thesis using skip by (simp add: notifyDir_def)
next
  case s: True
  show ?thesis
  proof (cases "inBoard b (targetIndex w (position (b ! i)) d)")
    case False
    then show ?thesis using s undef by (simp add: notifyDir_def)
  next
    case True
    define k where "k = nat (targetIndex w (position (b ! i)) d)"
    have k: "targetIndex w (position (b ! i)) d = int k" "k < length b"
      using True by (auto simp: k_def inBoard_def nat_less_iff)
    show ?thesis
      using tell [OF s k] s True k
      by (simp add: notifyDir_def Let_def split: prod.splits)
  qed
qed

lemma notifyDir_length [simp]: "length (fst (notifyDir b w i d)) = length b"
  by (cases rule: notifyDir_cases [where b=b and i=i and d=d and w=w]) simp_all

lemma notifyDir_sameCore: "j < length b \<Longrightarrow> sameCore (b ! j) (fst (notifyDir b w i d) ! j)"
proof (cases rule: notifyDir_cases [where b=b and i=i and d=d and w=w])
  case (tell k)
  assume j: "j < length b"
  show ?thesis
  proof (cases "j = k")
    case True
    then show ?thesis using tell j
      by (simp add: sameCore_trans [OF sameCore_findNeighbors sameCore_findPossibleTiles])
  next
    case False
    then show ?thesis using tell j by simp
  qed
qed simp_all

lemma cascade_length [simp]: "length (fst (cascade b w i ds)) = length b"
proof (induction ds arbitrary: b)
  case (Cons d ds)
  obtain b' e where n: "notifyDir b w i d = (b', e)" by (cases "notifyDir b w i d")
  then have "length b' = length b" using notifyDir_length [of b w i d] by simp
  then show ?case using n Cons.IH [of b'] by (cases e) simp_all
qed simp

lemma cascade_sameCore: "j < length b \<Longrightarrow> sameCore (b ! j) (fst (cascade b w i ds) ! j)"
proof (induction ds arbitrary: b)
  case (Cons d ds)
  obtain b' e where n: "notifyDir b w i d = (b', e)" by (cases "notifyDir b w i d")
  then have l: "length b' = length b" and s: "sameCore (b ! j) (b' ! j)"
    using notifyDir_length [of b w i d] notifyDir_sameCore [OF Cons.prems, of w i d] by simp_all
  show ?case
  proof (cases e)
    case None
    then show ?thesis using n l s Cons.IH [of b'] Cons.prems
      by (auto intro: sameCore_trans)
  next
    case (Some a)
    then show ?thesis using n s by simp
  qed
qed simp

text \<open>The shape of a call of \<open>collapse\<close>.\<close>

lemma collapse_cases:
  obtains (empty) "possibleTiles (b ! i) = []" "collapse b w i rnd = (b, Returned False)"
  | (undef) "possibleTiles (b ! i) \<noteq> []"
      "\<not> randomIndex rnd (length (possibleTiles (b ! i))) < length (possibleTiles (b ! i))"
      "collapse b w i rnd = (b, Threw TypeError)"
  | (nokey) "possibleTiles (b ! i) \<noteq> []"
      "randomIndex rnd (length (possibleTiles (b ! i))) < length (possibleTiles (b ! i))"
      "map_of layouts (fst (possibleTiles (b ! i) ! randomIndex rnd (length (possibleTiles (b ! i))))) = None"
      "collapse b w i rnd =
         (b[i := (b ! i)\<lparr>facing := fst (possibleTiles (b ! i) ! randomIndex rnd (length (possibleTiles (b ! i))))\<rparr>],
          Threw TypeError)"
  | (chosen) k l where "possibleTiles (b ! i) \<noteq> []"
      "k = randomIndex rnd (length (possibleTiles (b ! i)))" "k < length (possibleTiles (b ! i))"
      "map_of layouts (fst (possibleTiles (b ! i) ! k)) = Some l"
      "collapse b w i rnd =
         (fst (cascade (b[i := (generateConnections ((b ! i)\<lparr>facing := fst (possibleTiles (b ! i) ! k), layout := l\<rparr>))
                               \<lparr>collapsed := True, possibleTiles := []\<rparr>]) w i dirs),
          case snd (cascade (b[i := (generateConnections ((b ! i)\<lparr>facing := fst (possibleTiles (b ! i) ! k), layout := l\<rparr>))
                               \<lparr>collapsed := True, possibleTiles := []\<rparr>]) w i dirs) of
            None \<Rightarrow> Returned True | Some e \<Rightarrow> Threw e)"
proof (cases "possibleTiles (b ! i) = []")
  case True
  then show ?thesis using empty by (simp add: collapse_def)
next
  case ne: False
  show ?thesis
  proof (cases "randomIndex rnd (length (possibleTiles (b ! i))) < length (possibleTiles (b ! i))")
    case False
    then show ?thesis using ne undef by (simp add: collapse_def Let_def)
  next
    case lt: True
    show ?thesis
    proof (cases "map_of layouts (fst (possibleTiles (b ! i) ! randomIndex rnd (length (possibleTiles (b ! i)))))")
      case None
      then show ?thesis using ne lt nokey by (simp add: collapse_def Let_def)
    next
      case (Some l)
      show ?thesis
        using chosen [OF ne refl lt Some] ne lt Some
        by (simp add: collapse_def Let_def split: prod.splits option.splits)
    qed
  qed
qed

section \<open>The narrowing rule\<close>

text \<open>
  Claim C2. In the pass of \<open>findPossibleTiles\<close> for a direction whose neighbor is collapsed,
  a candidate of the tile is removed if and only if the neighbor's facing connector has at
  most one black pixel, the candidate's own side has at most one black pixel, and the two
  strings differ; nothing is added; and if the neighbor's connector has more than one black
  pixel the pass removes nothing. The candidates are the entries of an object, so their
  keys are distinct.
\<close>

theorem narrowing_rule:
  assumes "getDir d (neighbors this) = Some True"
    and "inBoard board (targetIndex width (position this) d)"
    and "getConnector (board ! nat (targetIndex width (position this) d)) (opposite d) = Some connector"
    and "distinct (map fst (possibleTiles this))"
  shows "(\<forall>(v, l) \<in> set (possibleTiles this).
            ((v, l) \<notin> set (possibleTiles (fst (narrowDir board width d this))))
              \<longleftrightarrow> (singlePixel connector \<and> singlePixel (potentialConnectionStr d l)
                    \<and> potentialConnectionStr d l \<noteq> connector))
       \<and> set (possibleTiles (fst (narrowDir board width d this))) \<subseteq> set (possibleTiles this)
       \<and> (\<not> singlePixel connector \<longrightarrow>
            possibleTiles (fst (narrowDir board width d this)) = possibleTiles this)"
proof -
  have n: "possibleTiles (fst (narrowDir board width d this))
             = filter (\<lambda>e. \<not> eliminates connector d (snd e)) (possibleTiles this)"
    using assms by (simp add: narrowDir_def Let_def narrowEntries_self)
  have "\<not> singlePixel connector \<Longrightarrow>
          filter (\<lambda>e. \<not> eliminates connector d (snd e)) (possibleTiles this) = possibleTiles this"
    by (simp add: eliminates_def)
  then show ?thesis unfolding n by (auto simp: eliminates_def)
qed

theorem narrowing_rule_witness:
  "(''east'', [''010'', ''011'', ''010'']) \<notin>
      set (possibleTiles (fst (narrowDir (fst (collapse (boardTiles (resetBoard 1 2)) 2 0 (1/5))) 2 West
             (findNeighbors (fst (collapse (boardTiles (resetBoard 1 2)) 2 0 (1/5))) 2 (Tile 1)))))
   \<and> (''north'', [''010'', ''111'', ''000'']) \<in>
      set (possibleTiles (fst (narrowDir (fst (collapse (boardTiles (resetBoard 1 2)) 2 0 (1/5))) 2 West
             (findNeighbors (fst (collapse (boardTiles (resetBoard 1 2)) 2 0 (1/5))) 2 (Tile 1)))))"
proof -
  let ?b = "fst (collapse (boardTiles (resetBoard 1 2)) 2 0 (1/5))"
  let ?t = "findNeighbors ?b 2 (Tile 1)"
  have h1: "getDir West (neighbors ?t) = Some True" by code_simp
  have h2: "inBoard ?b (targetIndex 2 (position ?t) West)" by code_simp
  have h3: "getConnector (?b ! nat (targetIndex 2 (position ?t) West)) (opposite West) = Some ''010''"
    by code_simp
  have h4: "distinct (map fst (possibleTiles ?t))" by code_simp
  have m1: "(''east'', [''010'', ''011'', ''010'']) \<in> set (possibleTiles ?t)"
    and m2: "(''north'', [''010'', ''111'', ''000'']) \<in> set (possibleTiles ?t)"
    by code_simp+
  have c1: "singlePixel ''010'' \<and> singlePixel (potentialConnectionStr West [''010'', ''011'', ''010''])
              \<and> potentialConnectionStr West [''010'', ''011'', ''010''] \<noteq> ''010''"
    by code_simp
  have c2: "\<not> (potentialConnectionStr West [''010'', ''111'', ''000''] \<noteq> ''010'')"
    by code_simp
  from narrowing_rule [OF h1 h2 h3 h4] m1 m2 c1 c2 show ?thesis by blast
qed

section \<open>Collapse without candidates\<close>

text \<open>
  Claim C8. \<open>collapse\<close> on a tile with no candidate returns \<open>false\<close> and leaves the whole
  board as it was: no field of the tile changes and no neighbor is told. A tile that a call
  of \<open>collapse\<close> has collapsed has no candidate left, so every later \<open>collapse\<close> on it is
  such a call.
\<close>

theorem collapse_without_candidates:
  "(possibleTiles (board ! i) = [] \<longrightarrow> collapse board width i rnd = (board, Returned False))
   \<and> (i < length board \<and> \<not> collapsed (board ! i) \<and> collapse board width i rnd = (board', r)
        \<and> collapsed (board' ! i)
      \<longrightarrow> possibleTiles (board' ! i) = [] \<and> collapse board' width i rnd' = (board', Returned False))"
proof -
  have a: "\<And>b. possibleTiles (b ! i) = [] \<Longrightarrow> collapse b width i rnd' = (b, Returned False)"
    by (simp add: collapse_def)
  have e: "possibleTiles (board' ! i) = []"
    if i: "i < length board" and u: "\<not> collapsed (board ! i)"
      and c: "collapse board width i rnd = (board', r)" and c': "collapsed (board' ! i)"
  proof (cases rule: collapse_cases [where b=board and i=i and w=width and rnd=rnd])
    case empty
    then show ?thesis using c by simp
  next
    case undef
    then show ?thesis using c c' u by simp
  next
    case nokey
    then show ?thesis using c c' u i by auto
  next
    case (chosen k l)
    let ?b1 = "board[i := (generateConnections ((board ! i)\<lparr>facing := fst (possibleTiles (board ! i) ! k), layout := l\<rparr>))
                               \<lparr>collapsed := True, possibleTiles := []\<rparr>]"
    have "sameCore (?b1 ! i) (fst (cascade ?b1 width i dirs) ! i)"
      using i by (intro cascade_sameCore) simp
    then have "set (possibleTiles (fst (cascade ?b1 width i dirs) ! i)) \<subseteq> {}"
      using i by (simp add: sameCore_def)
    then show ?thesis using chosen(5) c by simp
  qed
  show ?thesis
  proof (intro conjI impI)
    assume "possibleTiles (board ! i) = []"
    then show "collapse board width i rnd = (board, Returned False)" by (simp add: collapse_def)
  next
    assume h: "i < length board \<and> \<not> collapsed (board ! i) \<and> collapse board width i rnd = (board', r)
        \<and> collapsed (board' ! i)"
    then show "possibleTiles (board' ! i) = []" using e by blast
    then show "collapse board' width i rnd' = (board', Returned False)" by (rule a)
  qed
qed

theorem collapse_without_candidates_witness:
  "collapse (fst (collapse (boardTiles (resetBoard 1 1)) 1 0 (1/2))) 1 0 (1/5)
     = (fst (collapse (boardTiles (resetBoard 1 1)) 1 0 (1/2)), Returned False)"
proof -
  let ?b = "boardTiles (resetBoard 1 1)"
  let ?b' = "fst (collapse ?b 1 0 (1/2))"
  have h: "0 < length ?b \<and> \<not> collapsed (?b ! 0) \<and> collapse ?b 1 0 (1/2) = (?b', Returned True)
           \<and> collapsed (?b' ! 0)"
    by code_simp
  from collapse_without_candidates [of ?b 0 1 "1/2" ?b' "Returned True" "1/5"] h show ?thesis by blast
qed

section \<open>A step on a solved board\<close>

text \<open>
  Claim C5. On the 1 by 1 board after its only step every tile is collapsed. One more step
  finds no tile (\<open>chooseNextTile\<close> returns \<open>undefined\<close>), \<open>iterateLoop\<close> throws a
  \<open>TypeError\<close>, and \<open>doCollapse\<close> returns \<open>false\<close>, the value it also returns for a
  contradiction.
\<close>

theorem step_on_solved_board:
  "list_all isCollapsed (boardTiles (fst (doCollapse (resetBoard 1 1) 1 (1/2) (1/2))))
   \<and> chooseNextTile (boardTiles (fst (doCollapse (resetBoard 1 1) 1 (1/2) (1/2)))) (1/2) = None
   \<and> iterateLoop (fst (doCollapse (resetBoard 1 1) 1 (1/2) (1/2))) 1 (1/2) (1/2)
       = (fst (doCollapse (resetBoard 1 1) 1 (1/2) (1/2)), Threw TypeError)
   \<and> doCollapse (fst (doCollapse (resetBoard 1 1) 1 (1/2) (1/2))) 1 (1/2) (1/2)
       = (fst (doCollapse (resetBoard 1 1) 1 (1/2) (1/2)), False)"
  by code_simp

section \<open>Scenario B: the 1 by 2 board\<close>

lemma randomIndex_less:
  assumes "0 \<le> rnd" "rnd < 1" "0 < n"
  shows "randomIndex rnd n < n"
proof -
  have "rnd * real n < real n" using assms by simp
  then have "\<lfloor>rnd * real n\<rfloor> < int n" by (simp add: floor_less_iff)
  moreover have "0 \<le> \<lfloor>rnd * real n\<rfloor>" using assms by simp
  ultimately show ?thesis by (simp add: randomIndex_def nat_less_iff)
qed

lemma randomIndex_exact: "0 < n \<Longrightarrow> randomIndex (real k / real n) n = k"
  by (simp add: randomIndex_def)

lemma collapse_randomIndex_cong:
  "randomIndex rnd (length (possibleTiles (b ! i))) = randomIndex rnd' (length (possibleTiles (b ! i)))
   \<Longrightarrow> collapse b w i rnd = collapse b w i rnd'"
  by (simp add: collapse_def Let_def)

lemma board12: "boardTiles (resetBoard 1 2) =
   [\<lparr>position = 0, collapsed = False, facing = ''blank'', layout = [''000'', ''000'', ''000''],
     neighbors = \<lparr>north = None, east = Some False, south = None, west = None\<rparr>,
     connections = \<lparr>north = None, east = None, south = None, west = None\<rparr>,
     possibleTiles = layouts\<rparr>,
    \<lparr>position = 1, collapsed = False, facing = ''blank'', layout = [''000'', ''000'', ''000''],
     neighbors = \<lparr>north = None, east = None, south = None, west = Some False\<rparr>,
     connections = \<lparr>north = None, east = None, south = None, west = None\<rparr>,
     possibleTiles = layouts\<rparr>]"
  by code_simp

lemma board12_east: "collapse (boardTiles (resetBoard 1 2)) 2 0 (1/5) =
   ([\<lparr>position = 0, collapsed = True, facing = ''east'', layout = [''010'', ''011'', ''010''],
      neighbors = \<lparr>north = None, east = Some False, south = None, west = None\<rparr>,
      connections = \<lparr>north = Some ''010'', east = Some ''010'', south = Some ''010'', west = Some ''000''\<rparr>,
      possibleTiles = []\<rparr>,
     \<lparr>position = 1, collapsed = False, facing = ''blank'', layout = [''000'', ''000'', ''000''],
      neighbors = \<lparr>north = None, east = None, south = None, west = Some True\<rparr>,
      connections = \<lparr>north = None, east = None, south = None, west = None\<rparr>,
      possibleTiles = [(''north'', [''010'', ''111'', ''000'']), (''south'', [''000'', ''111'', ''010'']),
                       (''west'', [''010'', ''110'', ''010''])]\<rparr>],
    Returned True)"
  by code_simp

lemma board12_facings:
  "facing (fst (collapse (boardTiles (resetBoard 1 2)) 2 0 (0/5)) ! 0) = ''north''"
  "facing (fst (collapse (boardTiles (resetBoard 1 2)) 2 0 (2/5)) ! 0) = ''south''"
  "facing (fst (collapse (boardTiles (resetBoard 1 2)) 2 0 (3/5)) ! 0) = ''west''"
  "facing (fst (collapse (boardTiles (resetBoard 1 2)) 2 0 (4/5)) ! 0) = ''blank''"
  by code_simp+

text \<open>
  Claim C3. On the fresh board of one row and two columns, whose tiles have the five
  candidates, if \<open>collapse\<close> of tile 0 chooses \<open>east\<close> then it returns \<open>true\<close>, the east
  connector of tile 0 is \<open>010\<close>, and tile 1 is left with exactly \<open>north\<close>, \<open>south\<close> and
  \<open>west\<close>: \<open>east\<close> and \<open>blank\<close> are removed and its entropy is 3.
\<close>

theorem scenario_B:
  assumes "0 \<le> rnd" and "rnd < 1"
    and "collapse (boardTiles (resetBoard 1 2)) 2 0 rnd = (board', r)"
    and "facing (board' ! 0) = ''east''"
  shows "map fst (possibleTiles (boardTiles (resetBoard 1 2) ! 1))
           = [''north'', ''east'', ''south'', ''west'', ''blank'']
       \<and> r = Returned True
       \<and> getConnector (board' ! 0) East = Some ''010''
       \<and> map fst (possibleTiles (board' ! 1)) = [''north'', ''south'', ''west'']
       \<and> getEntropy (board' ! 1) = 3"
proof -
  let ?b = "boardTiles (resetBoard 1 2)"
  have n: "length (possibleTiles (?b ! 0)) = 5" unfolding board12 by (simp add: layouts_def)
  define k where "k = randomIndex rnd 5"
  have k: "k < 5" using randomIndex_less [OF assms(1,2), of 5] by (simp add: k_def)
  have e: "randomIndex (real k / real (5::nat)) 5 = k" by (rule randomIndex_exact) simp
  have "randomIndex rnd (length (possibleTiles (?b ! 0)))
          = randomIndex (real k / real (5::nat)) (length (possibleTiles (?b ! 0)))"
    unfolding n e by (simp add: k_def)
  then have c: "collapse ?b 2 0 rnd = collapse ?b 2 0 (real k / real (5::nat))"
    by (rule collapse_randomIndex_cong)
  from k consider "k = 0" | "k = 1" | "k = 2" | "k = 3" | "k = 4" by linarith
  then have "k = 1"
  proof cases
    case 1
    then show ?thesis using c assms(3,4) board12_facings(1) by simp
  next
    case 3
    then show ?thesis using c assms(3,4) board12_facings(2) by simp
  next
    case 4
    then show ?thesis using c assms(3,4) board12_facings(3) by simp
  next
    case 5
    then show ?thesis using c assms(3,4) board12_facings(4) by simp
  qed simp
  then have "collapse ?b 2 0 rnd = collapse ?b 2 0 (1/5)" using c by simp
  with assms(3) board12_east have r: "r = Returned True" and b:
    "board' = [\<lparr>position = 0, collapsed = True, facing = ''east'', layout = [''010'', ''011'', ''010''],
      neighbors = \<lparr>north = None, east = Some False, south = None, west = None\<rparr>,
      connections = \<lparr>north = Some ''010'', east = Some ''010'', south = Some ''010'', west = Some ''000''\<rparr>,
      possibleTiles = []\<rparr>,
     \<lparr>position = 1, collapsed = False, facing = ''blank'', layout = [''000'', ''000'', ''000''],
      neighbors = \<lparr>north = None, east = None, south = None, west = Some True\<rparr>,
      connections = \<lparr>north = None, east = None, south = None, west = None\<rparr>,
      possibleTiles = [(''north'', [''010'', ''111'', ''000'']), (''south'', [''000'', ''111'', ''010'']),
                       (''west'', [''010'', ''110'', ''010''])]\<rparr>]"
    by simp_all
  show ?thesis unfolding r b board12 by (simp add: layouts_def getConnector_def getEntropy_def)
qed

theorem scenario_B_witness:
  "facing (fst (collapse (boardTiles (resetBoard 1 2)) 2 0 (1/5)) ! 0) = ''east''
   \<and> getConnector (fst (collapse (boardTiles (resetBoard 1 2)) 2 0 (1/5)) ! 0) East = Some ''010''
   \<and> map fst (possibleTiles (fst (collapse (boardTiles (resetBoard 1 2)) 2 0 (1/5)) ! 1))
        = [''north'', ''south'', ''west'']"
proof -
  have r: "(0::real) \<le> 1/5" "(1/5::real) < 1" by simp_all
  have c: "collapse (boardTiles (resetBoard 1 2)) 2 0 (1/5)
             = (fst (collapse (boardTiles (resetBoard 1 2)) 2 0 (1/5)), snd (collapse (boardTiles (resetBoard 1 2)) 2 0 (1/5)))"
    by simp
  have f: "facing (fst (collapse (boardTiles (resetBoard 1 2)) 2 0 (1/5)) ! 0) = ''east''"
    unfolding board12_east by simp
  from scenario_B [OF r c f] f show ?thesis by blast
qed

section \<open>Choosing the next tile\<close>


lemma Math_min_Nil: "Math_min [] = \<infinity>"
  by (simp add: Math_min_def)








section \<open>The edge-matching invariant\<close>





lemma opposite_opposite [simp]: "opposite (opposite d) = d"
  by (cases d) simp_all

lemma inBoard_nat: "inBoard b k \<Longrightarrow> nat k < length b"
  by (auto simp: inBoard_def nat_less_iff)

lemma inBoard_int [simp]: "inBoard b (int i) = (i < length b)"
  by (simp add: inBoard_def)

lemma sameFlags_refl [simp]: "sameFlags b b"
  by (simp add: sameFlags_def)


lemma sameFlags_inBoard: "sameFlags b b' \<Longrightarrow> inBoard b' k = inBoard b k"
  by (simp add: sameFlags_def inBoard_def)

lemma sameFlags_collapsed: "sameFlags b b' \<Longrightarrow> inBoard b k \<Longrightarrow> collapsed (b' ! nat k) = collapsed (b ! nat k)"
  by (simp add: sameFlags_def inBoard_nat)











lemma findNeighbor_cong:
  assumes "sameFlags b b'"
  shows "findNeighbor b' w d t = findNeighbor b w d t"
  using sameFlags_inBoard [OF assms] sameFlags_collapsed [OF assms]
  by (simp add: findNeighbor_def Let_def isCollapsed_def)

lemma findNeighbors_cong:
  assumes "sameFlags b b'"
  shows "findNeighbors b' w t = findNeighbors b w t"
proof -
  have "findNeighbor b' w = findNeighbor b w"
    by (intro ext) (rule findNeighbor_cong [OF assms])
  then show ?thesis by (simp add: findNeighbors_def)
qed







lemma pendingOf_Nil [simp]: "pendingOf w t [] = {}"
  by (simp add: pendingOf_def)





lemma dir_in_dirs [simp]: "d \<in> set dirs"
  by (cases d) (simp_all add: dirs_def)






lemma resetBoard_fold:
  assumes "k \<le> n"
  shows "fold (\<lambda>i b. b[i := findNeighbors b w (b ! i)]) [0..<k] (map (\<lambda>i. Tile (int i)) [0..<n])
         = map (\<lambda>i. if i < k then findNeighbors (map (\<lambda>i. Tile (int i)) [0..<n]) w (Tile (int i))
                     else Tile (int i)) [0..<n]"
  using assms
proof (induction k)
  case 0
  then show ?case by simp
next
  case (Suc k)
  let ?nb = "map (\<lambda>i. Tile (int i)) [0..<n]"
  let ?bk = "map (\<lambda>i. if i < k then findNeighbors ?nb w (Tile (int i)) else Tile (int i)) [0..<n]"
  have k: "k < n" using Suc.prems by simp
  have ih: "fold (\<lambda>i b. b[i := findNeighbors b w (b ! i)]) [0..<k] ?nb = ?bk"
    using Suc by simp
  have f: "sameFlags ?nb ?bk"
    by (simp add: sameFlags_def findNeighbors_fields)
  have "fold (\<lambda>i b. b[i := findNeighbors b w (b ! i)]) [0..<Suc k] ?nb
          = ?bk[k := findNeighbors ?bk w (?bk ! k)]"
    using ih by simp
  also have "\<dots> = ?bk[k := findNeighbors ?nb w (Tile (int k))]"
    using k findNeighbors_cong [OF f] by simp
  also have "\<dots> = map (\<lambda>i. if i < Suc k then findNeighbors ?nb w (Tile (int i)) else Tile (int i)) [0..<n]"
    using k by (intro nth_equalityI) (auto simp: nth_list_update less_Suc_eq)
  finally show ?case .
qed

lemma resetBoard_tiles:
  "boardTiles (resetBoard h w)
     = map (\<lambda>i. findNeighbors (map (\<lambda>i. Tile (int i)) [0..<h * w]) (int w) (Tile (int i))) [0..<h * w]"
  using resetBoard_fold [of "h * w" "h * w" "int w"]
  by (simp add: resetBoard_def Let_def)





section \<open>Errors in the cascade\<close>

lemma cascade_append_error:
  "cascade c w i ds1 = (c2, None) \<Longrightarrow> notifyDir c2 w i d = (c3, Some e)
   \<Longrightarrow> cascade c w i (ds1 @ d # ds2) = (c3, Some e)"
proof (induction ds1 arbitrary: c)
  case Nil
  then show ?case by simp
next
  case (Cons a ds1)
  obtain c' e' where n: "notifyDir c w i a = (c', e')" by (cases "notifyDir c w i a")
  show ?case
  proof (cases e')
    case None
    then show ?thesis using n Cons by simp
  next
    case (Some x)
    then show ?thesis using n Cons.prems(1) by simp
  qed
qed

lemma cascade_split:
  "snd (cascade c w i ds) = Some e \<Longrightarrow>
   \<exists>ds1 d ds2 c2. ds = ds1 @ d # ds2 \<and> cascade c w i ds1 = (c2, None)
      \<and> notifyDir c2 w i d = (fst (cascade c w i ds), Some e)"
proof (induction ds arbitrary: c)
  case Nil
  then show ?case by simp
next
  case (Cons a ds)
  obtain c' e' where n: "notifyDir c w i a = (c', e')" by (cases "notifyDir c w i a")
  show ?case
  proof (cases e')
    case None
    then have r: "cascade c w i (a # ds) = cascade c' w i ds" using n by simp
    with Cons.prems have "snd (cascade c' w i ds) = Some e" by simp
    from Cons.IH [OF this] obtain ds1 d ds2 c2 where
      s: "ds = ds1 @ d # ds2" "cascade c' w i ds1 = (c2, None)"
         "notifyDir c2 w i d = (fst (cascade c' w i ds), Some e)" by blast
    have "cascade c w i (a # ds1) = (c2, None)" using n None s(2) by simp
    then show ?thesis using s r by (metis append_Cons)
  next
    case (Some x)
    then have "cascade c w i (a # ds) = (c', Some x)" using n by simp
    with Cons.prems have "x = e" "fst (cascade c w i (a # ds)) = c'" by simp_all
    moreover have "cascade c w i [] = (c, None)" by simp
    ultimately show ?thesis using n Some by (metis append_Nil)
  qed
qed

lemma targetIndex_other: "0 < w \<Longrightarrow> targetIndex w p d \<noteq> p"
  by (cases d) simp_all

lemma notifyDir_frame:
  assumes "notifyDir c w i d = (c', e)" and "j < length c"
    and "targetIndex w (position (c ! i)) d \<noteq> int j"
  shows "c' ! j = c ! j"
proof (cases rule: notifyDir_cases [where b=c and i=i and d=d and w=w])
  case (tell k)
  then have "k \<noteq> j" using assms(3) by auto
  then show ?thesis using tell(4) assms(1) by auto
qed (use assms(1) in simp_all)

lemma cascade_frame:
  assumes "0 < w" and "i < length c" and "position (c ! i) = int i"
  shows "fst (cascade c w i ds) ! i = c ! i
       \<and> (\<forall>j<length c. (\<forall>d \<in> set ds. targetIndex w (int i) d \<noteq> int j)
             \<longrightarrow> fst (cascade c w i ds) ! j = c ! j)"
  using assms(2,3)
proof (induction ds arbitrary: c)
  case Nil
  then show ?case by simp
next
  case (Cons a ds)
  obtain c' e' where n: "notifyDir c w i a = (c', e')" by (cases "notifyDir c w i a")
  have l: "length c' = length c" using notifyDir_length [of c w i a] n by simp
  have ti: "targetIndex w (position (c ! i)) a \<noteq> int i"
    using targetIndex_other [OF assms(1)] Cons.prems(2) by simp
  have ci: "c' ! i = c ! i" by (rule notifyDir_frame [OF n Cons.prems(1) ti])
  have fr: "c' ! j = c ! j" if "j < length c" "targetIndex w (int i) a \<noteq> int j" for j
    using notifyDir_frame [OF n that(1)] that(2) Cons.prems(2) by simp
  show ?case
  proof (cases e')
    case None
    have "i < length c'" "position (c' ! i) = int i" using l ci Cons.prems by simp_all
    from Cons.IH [OF this] show ?thesis using n None ci fr l by auto
  next
    case (Some x)
    then show ?thesis using n ci fr by auto
  qed
qed

lemma findPossibleTiles_contradiction:
  "snd (findPossibleTiles b w t) = Some Contradiction
     \<longleftrightarrow> snd (narrowDirs b w dirs t) = None
         \<and> \<not> collapsed (fst (findPossibleTiles b w t))
         \<and> possibleTiles (fst (findPossibleTiles b w t)) = []"
proof (cases "snd (narrowDirs b w dirs t)")
  case None
  then show ?thesis
    by (cases "narrowDirs b w dirs t") (simp add: findPossibleTiles_def isCollapsed_def)
next
  case (Some e)
  then have "e = TypeError" by (rule narrowDirs_error)
  then show ?thesis using Some
    by (cases "narrowDirs b w dirs t") (simp add: findPossibleTiles_def)
qed

lemma notifyDir_tell:
  assumes "getDir d (neighbors (c ! i)) = Some False"
    and "targetIndex w (position (c ! i)) d = int k" and "k < length c"
  shows "notifyDir c w i d =
           (c[k := fst (findPossibleTiles (c[k := findNeighbors c w (c ! k)]) w (findNeighbors c w (c ! k)))],
            snd (findPossibleTiles (c[k := findNeighbors c w (c ! k)]) w (findNeighbors c w (c ! k))))"
  using assms by (simp add: notifyDir_def Let_def split: prod.splits)

lemma collapse_chosen:
  assumes "possibleTiles (b ! i) \<noteq> []"
    and "randomIndex rnd (length (possibleTiles (b ! i))) < length (possibleTiles (b ! i))"
    and "map_of layouts (fst (possibleTiles (b ! i) ! randomIndex rnd (length (possibleTiles (b ! i))))) = Some l"
    and "cascade (b[i := (generateConnections
                   ((b ! i)\<lparr>facing := fst (possibleTiles (b ! i) ! randomIndex rnd (length (possibleTiles (b ! i)))),
                            layout := l\<rparr>))\<lparr>collapsed := True, possibleTiles := []\<rparr>]) w i dirs = (b', e)"
  shows "collapse b w i rnd = (b', case e of None \<Rightarrow> Returned True | Some x \<Rightarrow> Threw x)"
  using assms by (simp add: collapse_def Let_def split: option.splits)

text \<open>Two runs on the board of two rows and three columns.\<close>

lemma board23:
  "boardTiles (resetBoard 2 3) =
   [\<lparr>position = 0, collapsed = False, facing = ''blank'', layout = [''000'', ''000'', ''000''],
     neighbors = \<lparr>north = None, east = Some False, south = Some False, west = None\<rparr>,
     connections = \<lparr>north = None, east = None, south = None, west = None\<rparr>,
     possibleTiles = layouts\<rparr>,
    \<lparr>position = 1, collapsed = False, facing = ''blank'', layout = [''000'', ''000'', ''000''],
     neighbors = \<lparr>north = None, east = Some False, south = Some False, west = Some False\<rparr>,
     connections = \<lparr>north = None, east = None, south = None, west = None\<rparr>,
     possibleTiles = layouts\<rparr>,
    \<lparr>position = 2, collapsed = False, facing = ''blank'', layout = [''000'', ''000'', ''000''],
     neighbors = \<lparr>north = None, east = None, south = Some False, west = Some False\<rparr>,
     connections = \<lparr>north = None, east = None, south = None, west = None\<rparr>,
     possibleTiles = layouts\<rparr>,
    \<lparr>position = 3, collapsed = False, facing = ''blank'', layout = [''000'', ''000'', ''000''],
     neighbors = \<lparr>north = Some False, east = Some False, south = None, west = None\<rparr>,
     connections = \<lparr>north = None, east = None, south = None, west = None\<rparr>,
     possibleTiles = layouts\<rparr>,
    \<lparr>position = 4, collapsed = False, facing = ''blank'', layout = [''000'', ''000'', ''000''],
     neighbors = \<lparr>north = Some False, east = Some False, south = None, west = Some False\<rparr>,
     connections = \<lparr>north = None, east = None, south = None, west = None\<rparr>,
     possibleTiles = layouts\<rparr>,
    \<lparr>position = 5, collapsed = False, facing = ''blank'', layout = [''000'', ''000'', ''000''],
     neighbors = \<lparr>north = Some False, east = None, south = None, west = Some False\<rparr>,
     connections = \<lparr>north = None, east = None, south = None, west = None\<rparr>,
     possibleTiles = layouts\<rparr>]"
  unfolding resetBoard_tiles by code_simp

lemma board23_a1:
  "collapse (boardTiles (resetBoard 2 3)) 3 3 (3/5) =
   ([\<lparr>position = 0, collapsed = False, facing = ''blank'', layout = [''000'', ''000'', ''000''],
      neighbors = \<lparr>north = None, east = Some False, south = Some True, west = None\<rparr>,
      connections = \<lparr>north = None, east = None, south = None, west = None\<rparr>,
      possibleTiles = [(''east'', [''010'', ''011'', ''010'']), (''south'', [''000'', ''111'', ''010'']),
                       (''west'', [''010'', ''110'', ''010''])]\<rparr>,
     \<lparr>position = 1, collapsed = False, facing = ''blank'', layout = [''000'', ''000'', ''000''],
      neighbors = \<lparr>north = None, east = Some False, south = Some False, west = Some False\<rparr>,
      connections = \<lparr>north = None, east = None, south = None, west = None\<rparr>,
      possibleTiles = layouts\<rparr>,
     \<lparr>position = 2, collapsed = False, facing = ''blank'', layout = [''000'', ''000'', ''000''],
      neighbors = \<lparr>north = None, east = None, south = Some False, west = Some False\<rparr>,
      connections = \<lparr>north = None, east = None, south = None, west = None\<rparr>,
      possibleTiles = layouts\<rparr>,
     \<lparr>position = 3, collapsed = True, facing = ''west'', layout = [''010'', ''110'', ''010''],
      neighbors = \<lparr>north = Some False, east = Some False, south = None, west = None\<rparr>,
      connections = \<lparr>north = Some ''010'', east = Some ''000'', south = Some ''010'', west = Some ''010''\<rparr>,
      possibleTiles = []\<rparr>,
     \<lparr>position = 4, collapsed = False, facing = ''blank'', layout = [''000'', ''000'', ''000''],
      neighbors = \<lparr>north = Some False, east = Some False, south = None, west = Some True\<rparr>,
      connections = \<lparr>north = None, east = None, south = None, west = None\<rparr>,
      possibleTiles = [(''east'', [''010'', ''011'', ''010'']), (''blank'', [''000'', ''000'', ''000''])]\<rparr>,
     \<lparr>position = 5, collapsed = False, facing = ''blank'', layout = [''000'', ''000'', ''000''],
      neighbors = \<lparr>north = Some False, east = None, south = None, west = Some False\<rparr>,
      connections = \<lparr>north = None, east = None, south = None, west = None\<rparr>,
      possibleTiles = layouts\<rparr>],
    Returned True)"
  unfolding board23 by code_simp

lemma board23_a2:
  "collapse (fst (collapse (boardTiles (resetBoard 2 3)) 3 3 (3/5))) 3 5 (1/5) =
   ([\<lparr>position = 0, collapsed = False, facing = ''blank'', layout = [''000'', ''000'', ''000''],
      neighbors = \<lparr>north = None, east = Some False, south = Some True, west = None\<rparr>,
      connections = \<lparr>north = None, east = None, south = None, west = None\<rparr>,
      possibleTiles = [(''east'', [''010'', ''011'', ''010'']), (''south'', [''000'', ''111'', ''010'']),
                       (''west'', [''010'', ''110'', ''010''])]\<rparr>,
     \<lparr>position = 1, collapsed = False, facing = ''blank'', layout = [''000'', ''000'', ''000''],
      neighbors = \<lparr>north = None, east = Some False, south = Some False, west = Some False\<rparr>,
      connections = \<lparr>north = None, east = None, south = None, west = None\<rparr>,
      possibleTiles = layouts\<rparr>,
     \<lparr>position = 2, collapsed = False, facing = ''blank'', layout = [''000'', ''000'', ''000''],
      neighbors = \<lparr>north = None, east = None, south = Some True, west = Some False\<rparr>,
      connections = \<lparr>north = None, east = None, south = None, west = None\<rparr>,
      possibleTiles = [(''east'', [''010'', ''011'', ''010'']), (''south'', [''000'', ''111'', ''010'']),
                       (''west'', [''010'', ''110'', ''010''])]\<rparr>,
     \<lparr>position = 3, collapsed = True, facing = ''west'', layout = [''010'', ''110'', ''010''],
      neighbors = \<lparr>north = Some False, east = Some False, south = None, west = None\<rparr>,
      connections = \<lparr>north = Some ''010'', east = Some ''000'', south = Some ''010'', west = Some ''010''\<rparr>,
      possibleTiles = []\<rparr>,
     \<lparr>position = 4, collapsed = False, facing = ''blank'', layout = [''000'', ''000'', ''000''],
      neighbors = \<lparr>north = Some False, east = Some True, south = None, west = Some True\<rparr>,
      connections = \<lparr>north = None, east = None, south = None, west = None\<rparr>,
      possibleTiles = [(''blank'', [''000'', ''000'', ''000''])]\<rparr>,
     \<lparr>position = 5, collapsed = True, facing = ''east'', layout = [''010'', ''011'', ''010''],
      neighbors = \<lparr>north = Some False, east = None, south = None, west = Some False\<rparr>,
      connections = \<lparr>north = Some ''010'', east = Some ''010'', south = Some ''010'', west = Some ''000''\<rparr>,
      possibleTiles = []\<rparr>],
    Returned True)"
  unfolding board23_a1 fst_conv by code_simp

lemma board23_a3:
  "collapse (fst (collapse (fst (collapse (boardTiles (resetBoard 2 3)) 3 3 (3/5))) 3 5 (1/5))) 3 1 (1/5) =
   ([\<lparr>position = 0, collapsed = False, facing = ''blank'', layout = [''000'', ''000'', ''000''],
      neighbors = \<lparr>north = None, east = Some False, south = Some True, west = None\<rparr>,
      connections = \<lparr>north = None, east = None, south = None, west = None\<rparr>,
      possibleTiles = [(''east'', [''010'', ''011'', ''010'']), (''south'', [''000'', ''111'', ''010'']),
                       (''west'', [''010'', ''110'', ''010''])]\<rparr>,
     \<lparr>position = 1, collapsed = True, facing = ''east'', layout = [''010'', ''011'', ''010''],
      neighbors = \<lparr>north = None, east = Some False, south = Some False, west = Some False\<rparr>,
      connections = \<lparr>north = Some ''010'', east = Some ''010'', south = Some ''010'', west = Some ''000''\<rparr>,
      possibleTiles = []\<rparr>,
     \<lparr>position = 2, collapsed = False, facing = ''blank'', layout = [''000'', ''000'', ''000''],
      neighbors = \<lparr>north = None, east = None, south = Some True, west = Some True\<rparr>,
      connections = \<lparr>north = None, east = None, south = None, west = None\<rparr>,
      possibleTiles = [(''south'', [''000'', ''111'', ''010'']), (''west'', [''010'', ''110'', ''010''])]\<rparr>,
     \<lparr>position = 3, collapsed = True, facing = ''west'', layout = [''010'', ''110'', ''010''],
      neighbors = \<lparr>north = Some False, east = Some False, south = None, west = None\<rparr>,
      connections = \<lparr>north = Some ''010'', east = Some ''000'', south = Some ''010'', west = Some ''010''\<rparr>,
      possibleTiles = []\<rparr>,
     \<lparr>position = 4, collapsed = False, facing = ''blank'', layout = [''000'', ''000'', ''000''],
      neighbors = \<lparr>north = Some True, east = Some True, south = None, west = Some True\<rparr>,
      connections = \<lparr>north = None, east = None, south = None, west = None\<rparr>,
      possibleTiles = []\<rparr>,
     \<lparr>position = 5, collapsed = True, facing = ''east'', layout = [''010'', ''011'', ''010''],
      neighbors = \<lparr>north = Some False, east = None, south = None, west = Some False\<rparr>,
      connections = \<lparr>north = Some ''010'', east = Some ''010'', south = Some ''010'', west = Some ''000''\<rparr>,
      possibleTiles = []\<rparr>],
    Threw Contradiction)"
  unfolding board23_a2 fst_conv by code_simp

lemma board23_b1:
  "collapse (boardTiles (resetBoard 2 3)) 3 0 (3/5) =
   ([\<lparr>position = 0, collapsed = True, facing = ''west'', layout = [''010'', ''110'', ''010''],
      neighbors = \<lparr>north = None, east = Some False, south = Some False, west = None\<rparr>,
      connections = \<lparr>north = Some ''010'', east = Some ''000'', south = Some ''010'', west = Some ''010''\<rparr>,
      possibleTiles = []\<rparr>,
     \<lparr>position = 1, collapsed = False, facing = ''blank'', layout = [''000'', ''000'', ''000''],
      neighbors = \<lparr>north = None, east = Some False, south = Some False, west = Some True\<rparr>,
      connections = \<lparr>north = None, east = None, south = None, west = None\<rparr>,
      possibleTiles = [(''east'', [''010'', ''011'', ''010'']), (''blank'', [''000'', ''000'', ''000''])]\<rparr>,
     \<lparr>position = 2, collapsed = False, facing = ''blank'', layout = [''000'', ''000'', ''000''],
      neighbors = \<lparr>north = None, east = None, south = Some False, west = Some False\<rparr>,
      connections = \<lparr>north = None, east = None, south = None, west = None\<rparr>,
      possibleTiles = layouts\<rparr>,
     \<lparr>position = 3, collapsed = False, facing = ''blank'', layout = [''000'', ''000'', ''000''],
      neighbors = \<lparr>north = Some True, east = Some False, south = None, west = None\<rparr>,
      connections = \<lparr>north = None, east = None, south = None, west = None\<rparr>,
      possibleTiles = [(''north'', [''010'', ''111'', ''000'']), (''east'', [''010'', ''011'', ''010'']),
                       (''west'', [''010'', ''110'', ''010''])]\<rparr>,
     \<lparr>position = 4, collapsed = False, facing = ''blank'', layout = [''000'', ''000'', ''000''],
      neighbors = \<lparr>north = Some False, east = Some False, south = None, west = Some False\<rparr>,
      connections = \<lparr>north = None, east = None, south = None, west = None\<rparr>,
      possibleTiles = layouts\<rparr>,
     \<lparr>position = 5, collapsed = False, facing = ''blank'', layout = [''000'', ''000'', ''000''],
      neighbors = \<lparr>north = Some False, east = None, south = None, west = Some False\<rparr>,
      connections = \<lparr>north = None, east = None, south = None, west = None\<rparr>,
      possibleTiles = layouts\<rparr>],
    Returned True)"
  unfolding board23 by code_simp

lemma board23_b2:
  "collapse (fst (collapse (boardTiles (resetBoard 2 3)) 3 0 (3/5))) 3 2 (1/5) =
   ([\<lparr>position = 0, collapsed = True, facing = ''west'', layout = [''010'', ''110'', ''010''],
      neighbors = \<lparr>north = None, east = Some False, south = Some False, west = None\<rparr>,
      connections = \<lparr>north = Some ''010'', east = Some ''000'', south = Some ''010'', west = Some ''010''\<rparr>,
      possibleTiles = []\<rparr>,
     \<lparr>position = 1, collapsed = False, facing = ''blank'', layout = [''000'', ''000'', ''000''],
      neighbors = \<lparr>north = None, east = Some True, south = Some False, west = Some True\<rparr>,
      connections = \<lparr>north = None, east = None, south = None, west = None\<rparr>,
      possibleTiles = [(''blank'', [''000'', ''000'', ''000''])]\<rparr>,
     \<lparr>position = 2, collapsed = True, facing = ''east'', layout = [''010'', ''011'', ''010''],
      neighbors = \<lparr>north = None, east = None, south = Some False, west = Some False\<rparr>,
      connections = \<lparr>north = Some ''010'', east = Some ''010'', south = Some ''010'', west = Some ''000''\<rparr>,
      possibleTiles = []\<rparr>,
     \<lparr>position = 3, collapsed = False, facing = ''blank'', layout = [''000'', ''000'', ''000''],
      neighbors = \<lparr>north = Some True, east = Some False, south = None, west = None\<rparr>,
      connections = \<lparr>north = None, east = None, south = None, west = None\<rparr>,
      possibleTiles = [(''north'', [''010'', ''111'', ''000'']), (''east'', [''010'', ''011'', ''010'']),
                       (''west'', [''010'', ''110'', ''010''])]\<rparr>,
     \<lparr>position = 4, collapsed = False, facing = ''blank'', layout = [''000'', ''000'', ''000''],
      neighbors = \<lparr>north = Some False, east = Some False, south = None, west = Some False\<rparr>,
      connections = \<lparr>north = None, east = None, south = None, west = None\<rparr>,
      possibleTiles = layouts\<rparr>,
     \<lparr>position = 5, collapsed = False, facing = ''blank'', layout = [''000'', ''000'', ''000''],
      neighbors = \<lparr>north = Some True, east = None, south = None, west = Some False\<rparr>,
      connections = \<lparr>north = None, east = None, south = None, west = None\<rparr>,
      possibleTiles = [(''north'', [''010'', ''111'', ''000'']), (''east'', [''010'', ''011'', ''010'']),
                       (''west'', [''010'', ''110'', ''010''])]\<rparr>],
    Returned True)"
  unfolding board23_b1 fst_conv by code_simp

lemma board23_b3:
  "collapse (fst (collapse (fst (collapse (boardTiles (resetBoard 2 3)) 3 0 (3/5))) 3 2 (1/5))) 3 3 0 =
   ([\<lparr>position = 0, collapsed = True, facing = ''west'', layout = [''010'', ''110'', ''010''],
      neighbors = \<lparr>north = None, east = Some False, south = Some False, west = None\<rparr>,
      connections = \<lparr>north = Some ''010'', east = Some ''000'', south = Some ''010'', west = Some ''010''\<rparr>,
      possibleTiles = []\<rparr>,
     \<lparr>position = 1, collapsed = False, facing = ''blank'', layout = [''000'', ''000'', ''000''],
      neighbors = \<lparr>north = None, east = Some True, south = Some False, west = Some True\<rparr>,
      connections = \<lparr>north = None, east = None, south = None, west = None\<rparr>,
      possibleTiles = [(''blank'', [''000'', ''000'', ''000''])]\<rparr>,
     \<lparr>position = 2, collapsed = True, facing = ''east'', layout = [''010'', ''011'', ''010''],
      neighbors = \<lparr>north = None, east = None, south = Some False, west = Some False\<rparr>,
      connections = \<lparr>north = Some ''010'', east = Some ''010'', south = Some ''010'', west = Some ''000''\<rparr>,
      possibleTiles = []\<rparr>,
     \<lparr>position = 3, collapsed = True, facing = ''north'', layout = [''010'', ''111'', ''000''],
      neighbors = \<lparr>north = Some True, east = Some False, south = None, west = None\<rparr>,
      connections = \<lparr>north = Some ''010'', east = Some ''010'', south = Some ''000'', west = Some ''010''\<rparr>,
      possibleTiles = []\<rparr>,
     \<lparr>position = 4, collapsed = False, facing = ''blank'', layout = [''000'', ''000'', ''000''],
      neighbors = \<lparr>north = Some False, east = Some False, south = None, west = Some True\<rparr>,
      connections = \<lparr>north = None, east = None, south = None, west = None\<rparr>,
      possibleTiles = [(''north'', [''010'', ''111'', ''000'']), (''south'', [''000'', ''111'', ''010'']),
                       (''west'', [''010'', ''110'', ''010''])]\<rparr>,
     \<lparr>position = 5, collapsed = False, facing = ''blank'', layout = [''000'', ''000'', ''000''],
      neighbors = \<lparr>north = Some True, east = None, south = None, west = Some False\<rparr>,
      connections = \<lparr>north = None, east = None, south = None, west = None\<rparr>,
      possibleTiles = [(''north'', [''010'', ''111'', ''000'']), (''east'', [''010'', ''011'', ''010'']),
                       (''west'', [''010'', ''110'', ''010''])]\<rparr>],
    Returned True)"
  unfolding board23_b2 fst_conv by code_simp

lemma board23_b4:
  "collapse (fst (collapse (fst (collapse (fst (collapse (boardTiles (resetBoard 2 3)) 3 0 (3/5))) 3 2 (1/5))) 3 3 0)) 3 5 (1/3) =
   ([\<lparr>position = 0, collapsed = True, facing = ''west'', layout = [''010'', ''110'', ''010''],
      neighbors = \<lparr>north = None, east = Some False, south = Some False, west = None\<rparr>,
      connections = \<lparr>north = Some ''010'', east = Some ''000'', south = Some ''010'', west = Some ''010''\<rparr>,
      possibleTiles = []\<rparr>,
     \<lparr>position = 1, collapsed = False, facing = ''blank'', layout = [''000'', ''000'', ''000''],
      neighbors = \<lparr>north = None, east = Some True, south = Some False, west = Some True\<rparr>,
      connections = \<lparr>north = None, east = None, south = None, west = None\<rparr>,
      possibleTiles = [(''blank'', [''000'', ''000'', ''000''])]\<rparr>,
     \<lparr>position = 2, collapsed = True, facing = ''east'', layout = [''010'', ''011'', ''010''],
      neighbors = \<lparr>north = None, east = None, south = Some False, west = Some False\<rparr>,
      connections = \<lparr>north = Some ''010'', east = Some ''010'', south = Some ''010'', west = Some ''000''\<rparr>,
      possibleTiles = []\<rparr>,
     \<lparr>position = 3, collapsed = True, facing = ''north'', layout = [''010'', ''111'', ''000''],
      neighbors = \<lparr>north = Some True, east = Some False, south = None, west = None\<rparr>,
      connections = \<lparr>north = Some ''010'', east = Some ''010'', south = Some ''000'', west = Some ''010''\<rparr>,
      possibleTiles = []\<rparr>,
     \<lparr>position = 4, collapsed = False, facing = ''blank'', layout = [''000'', ''000'', ''000''],
      neighbors = \<lparr>north = Some False, east = Some True, south = None, west = Some True\<rparr>,
      connections = \<lparr>north = None, east = None, south = None, west = None\<rparr>,
      possibleTiles = [(''west'', [''010'', ''110'', ''010''])]\<rparr>,
     \<lparr>position = 5, collapsed = True, facing = ''east'', layout = [''010'', ''011'', ''010''],
      neighbors = \<lparr>north = Some True, east = None, south = None, west = Some False\<rparr>,
      connections = \<lparr>north = Some ''010'', east = Some ''010'', south = Some ''010'', west = Some ''000''\<rparr>,
      possibleTiles = []\<rparr>],
    Returned True)"
  unfolding board23_b3 fst_conv by code_simp

lemma board23_b5:
  "collapse (fst (collapse (fst (collapse (fst (collapse (fst (collapse (boardTiles (resetBoard 2 3)) 3 0 (3/5))) 3 2 (1/5))) 3 3 0)) 3 5 (1/3))) 3 1 0 =
   ([\<lparr>position = 0, collapsed = True, facing = ''west'', layout = [''010'', ''110'', ''010''],
      neighbors = \<lparr>north = None, east = Some False, south = Some False, west = None\<rparr>,
      connections = \<lparr>north = Some ''010'', east = Some ''000'', south = Some ''010'', west = Some ''010''\<rparr>,
      possibleTiles = []\<rparr>,
     \<lparr>position = 1, collapsed = True, facing = ''blank'', layout = [''000'', ''000'', ''000''],
      neighbors = \<lparr>north = None, east = Some True, south = Some False, west = Some True\<rparr>,
      connections = \<lparr>north = Some ''000'', east = Some ''000'', south = Some ''000'', west = Some ''000''\<rparr>,
      possibleTiles = []\<rparr>,
     \<lparr>position = 2, collapsed = True, facing = ''east'', layout = [''010'', ''011'', ''010''],
      neighbors = \<lparr>north = None, east = None, south = Some False, west = Some False\<rparr>,
      connections = \<lparr>north = Some ''010'', east = Some ''010'', south = Some ''010'', west = Some ''000''\<rparr>,
      possibleTiles = []\<rparr>,
     \<lparr>position = 3, collapsed = True, facing = ''north'', layout = [''010'', ''111'', ''000''],
      neighbors = \<lparr>north = Some True, east = Some False, south = None, west = None\<rparr>,
      connections = \<lparr>north = Some ''010'', east = Some ''010'', south = Some ''000'', west = Some ''010''\<rparr>,
      possibleTiles = []\<rparr>,
     \<lparr>position = 4, collapsed = False, facing = ''blank'', layout = [''000'', ''000'', ''000''],
      neighbors = \<lparr>north = Some True, east = Some True, south = None, west = Some True\<rparr>,
      connections = \<lparr>north = None, east = None, south = None, west = None\<rparr>,
      possibleTiles = []\<rparr>,
     \<lparr>position = 5, collapsed = True, facing = ''east'', layout = [''010'', ''011'', ''010''],
      neighbors = \<lparr>north = Some True, east = None, south = None, west = Some False\<rparr>,
      connections = \<lparr>north = Some ''010'', east = Some ''010'', south = Some ''010'', west = Some ''000''\<rparr>,
      possibleTiles = []\<rparr>],
    Threw Contradiction)"
  unfolding board23_b4 fst_conv by code_simp

section \<open>A contradiction reaches the driver\<close>

text \<open>
  Claim C4. \<open>findPossibleTiles\<close> throws its \<open>Error\<close> exactly when the loop over the four
  directions has finished and the tile is uncollapsed with no candidate left. \<open>collapse\<close>
  throws that error exactly when, in its loop over the neighbors, the \<open>findPossibleTiles\<close>
  of a neighbor it tells has thrown it, and the board is then the one of that moment. An
  error thrown by the \<open>collapse\<close> of the chosen tile leaves \<open>iterateLoop\<close>, and
  \<open>doCollapse\<close> returns \<open>false\<close>.
\<close>

theorem contradiction_surfaces:
  "(snd (findPossibleTiles board width this) = Some Contradiction
      \<longleftrightarrow> snd (narrowDirs board width dirs this) = None
          \<and> \<not> collapsed (fst (findPossibleTiles board width this))
          \<and> possibleTiles (fst (findPossibleTiles board width this)) = [])
   \<and> (collapse board width i rnd = (board', Threw Contradiction)
      \<longleftrightarrow> (\<exists>l ds1 d ds2 board2 k t.
            possibleTiles (board ! i) \<noteq> []
          \<and> randomIndex rnd (length (possibleTiles (board ! i))) < length (possibleTiles (board ! i))
          \<and> map_of layouts (fst (possibleTiles (board ! i) ! randomIndex rnd (length (possibleTiles (board ! i)))))
              = Some l
          \<and> dirs = ds1 @ d # ds2
          \<and> cascade (board[i := (generateConnections
                        ((board ! i)\<lparr>facing := fst (possibleTiles (board ! i)
                                                     ! randomIndex rnd (length (possibleTiles (board ! i)))),
                                     layout := l\<rparr>))\<lparr>collapsed := True, possibleTiles := []\<rparr>])
                width i ds1 = (board2, None)
          \<and> getDir d (neighbors (board2 ! i)) = Some False
          \<and> targetIndex width (position (board2 ! i)) d = int k \<and> k < length board2
          \<and> findPossibleTiles (board2[k := findNeighbors board2 width (board2 ! k)]) width
                (findNeighbors board2 width (board2 ! k)) = (t, Some Contradiction)
          \<and> board' = board2[k := t]))
   \<and> (chooseNextTile (boardTiles st) rnd1 = Some n
        \<and> collapse (boardTiles st) width n rnd2 = (board'', Threw e)
      \<longrightarrow> iterateLoop st width rnd1 rnd2 = (st\<lparr>boardTiles := board''\<rparr>, Threw e)
          \<and> doCollapse st width rnd1 rnd2 = (st\<lparr>boardTiles := board''\<rparr>, False))"
proof (intro conjI)
  show "snd (findPossibleTiles board width this) = Some Contradiction
      \<longleftrightarrow> snd (narrowDirs board width dirs this) = None
          \<and> \<not> collapsed (fst (findPossibleTiles board width this))
          \<and> possibleTiles (fst (findPossibleTiles board width this)) = []"
    by (rule findPossibleTiles_contradiction)
next
  show "chooseNextTile (boardTiles st) rnd1 = Some n
        \<and> collapse (boardTiles st) width n rnd2 = (board'', Threw e)
      \<longrightarrow> iterateLoop st width rnd1 rnd2 = (st\<lparr>boardTiles := board''\<rparr>, Threw e)
          \<and> doCollapse st width rnd1 rnd2 = (st\<lparr>boardTiles := board''\<rparr>, False)"
    by (simp add: iterateLoop_def doCollapse_def)
next
  let ?k0 = "randomIndex rnd (length (possibleTiles (board ! i)))"
  let ?ti = "\<lambda>l. (generateConnections ((board ! i)\<lparr>facing := fst (possibleTiles (board ! i) ! ?k0), layout := l\<rparr>))
                   \<lparr>collapsed := True, possibleTiles := []\<rparr>"
  let ?R = "\<exists>l ds1 d ds2 board2 k t.
            possibleTiles (board ! i) \<noteq> [] \<and> ?k0 < length (possibleTiles (board ! i))
          \<and> map_of layouts (fst (possibleTiles (board ! i) ! ?k0)) = Some l
          \<and> dirs = ds1 @ d # ds2
          \<and> cascade (board[i := ?ti l]) width i ds1 = (board2, None)
          \<and> getDir d (neighbors (board2 ! i)) = Some False
          \<and> targetIndex width (position (board2 ! i)) d = int k \<and> k < length board2
          \<and> findPossibleTiles (board2[k := findNeighbors board2 width (board2 ! k)]) width
                (findNeighbors board2 width (board2 ! k)) = (t, Some Contradiction)
          \<and> board' = board2[k := t]"
  show "collapse board width i rnd = (board', Threw Contradiction) \<longleftrightarrow> ?R"
  proof
    assume c: "collapse board width i rnd = (board', Threw Contradiction)"
    show ?R
    proof (cases rule: collapse_cases [where b=board and i=i and w=width and rnd=rnd])
      case empty
      then show ?thesis using c by simp
    next
      case undef
      then show ?thesis using c by simp
    next
      case nokey
      then show ?thesis using c by simp
    next
      case (chosen k0 l)
      have k0: "k0 = ?k0" by (rule chosen(2))
      have res: "board' = fst (cascade (board[i := ?ti l]) width i dirs)"
        "snd (cascade (board[i := ?ti l]) width i dirs) = Some Contradiction"
        using chosen(5) c unfolding k0 by (auto split: option.splits)
      from cascade_split [OF res(2)] obtain ds1 d ds2 c2 where
        s: "dirs = ds1 @ d # ds2" "cascade (board[i := ?ti l]) width i ds1 = (c2, None)"
           "notifyDir c2 width i d = (board', Some Contradiction)"
        using res(1) by auto
      from s(3) obtain k where
        k: "getDir d (neighbors (c2 ! i)) = Some False" "targetIndex width (position (c2 ! i)) d = int k"
           "k < length c2"
           "board' = c2[k := fst (findPossibleTiles (c2[k := findNeighbors c2 width (c2 ! k)]) width (findNeighbors c2 width (c2 ! k)))]"
           "snd (findPossibleTiles (c2[k := findNeighbors c2 width (c2 ! k)]) width (findNeighbors c2 width (c2 ! k)))
              = Some Contradiction"
        by (cases rule: notifyDir_cases [where b=c2 and i=i and d=d and w=width]) auto
      have "findPossibleTiles (c2[k := findNeighbors c2 width (c2 ! k)]) width (findNeighbors c2 width (c2 ! k))
              = (fst (findPossibleTiles (c2[k := findNeighbors c2 width (c2 ! k)]) width (findNeighbors c2 width (c2 ! k))),
                 Some Contradiction)"
        using k(5) by (metis prod.collapse)
      then show ?thesis using chosen(1,3,4) s(1,2) k(1-4) unfolding k0 by blast
    qed
  next
    assume ?R
    then obtain l ds1 d ds2 board2 k t where
      r: "possibleTiles (board ! i) \<noteq> []" "?k0 < length (possibleTiles (board ! i))"
         "map_of layouts (fst (possibleTiles (board ! i) ! ?k0)) = Some l"
         "dirs = ds1 @ d # ds2"
         "cascade (board[i := ?ti l]) width i ds1 = (board2, None)"
         "getDir d (neighbors (board2 ! i)) = Some False"
         "targetIndex width (position (board2 ! i)) d = int k" "k < length board2"
         "findPossibleTiles (board2[k := findNeighbors board2 width (board2 ! k)]) width
                (findNeighbors board2 width (board2 ! k)) = (t, Some Contradiction)"
         "board' = board2[k := t]"
      by blast
    have "notifyDir board2 width i d = (board', Some Contradiction)"
      using notifyDir_tell [OF r(6,7,8)] r(9,10) by simp
    from cascade_append_error [OF r(5) this, of ds2]
    have "cascade (board[i := ?ti l]) width i dirs = (board', Some Contradiction)" using r(4) by simp
    from collapse_chosen [OF r(1,2,3) this] show "collapse board width i rnd = (board', Threw Contradiction)"
      by simp
  qed
qed

theorem contradiction_surfaces_witness:
  "reachable 2 3 (fst (collapse (fst (collapse (fst (collapse (fst (collapse (boardTiles (resetBoard 2 3)) 3 0 (3/5))) 3 2 (1/5))) 3 3 0)) 3 5 (1/3)))
   \<and> chooseNextTile (fst (collapse (fst (collapse (fst (collapse (fst (collapse (boardTiles (resetBoard 2 3)) 3 0 (3/5))) 3 2 (1/5))) 3 3 0)) 3 5 (1/3))) 0 = Some 1
   \<and> collapse (fst (collapse (fst (collapse (fst (collapse (fst (collapse (boardTiles (resetBoard 2 3)) 3 0 (3/5))) 3 2 (1/5))) 3 3 0)) 3 5 (1/3))) 3 1 0
       = (fst (collapse (fst (collapse (fst (collapse (fst (collapse (fst (collapse (boardTiles (resetBoard 2 3)) 3 0 (3/5))) 3 2 (1/5))) 3 3 0)) 3 5 (1/3))) 3 1 0), Threw Contradiction)
   \<and> doCollapse \<lparr>boardTiles = fst (collapse (fst (collapse (fst (collapse (fst (collapse (boardTiles (resetBoard 2 3)) 3 0 (3/5))) 3 2 (1/5))) 3 3 0)) 3 5 (1/3)), collapsedTiles = 4\<rparr> 3 0 0
       = (\<lparr>boardTiles = fst (collapse (fst (collapse (fst (collapse (fst (collapse (fst (collapse (boardTiles (resetBoard 2 3)) 3 0 (3/5))) 3 2 (1/5))) 3 3 0)) 3 5 (1/3))) 3 1 0), collapsedTiles = 4\<rparr>, False)"
proof -
  let ?B0 = "boardTiles (resetBoard 2 3)"
  let ?B1 = "fst (collapse ?B0 3 0 (3/5))"
  let ?B2 = "fst (collapse ?B1 3 2 (1/5))"
  let ?B3 = "fst (collapse ?B2 3 3 0)"
  let ?B4 = "fst (collapse ?B3 3 5 (1/3))"
  let ?B5 = "fst (collapse ?B4 3 1 0)"
  have i3: "int 3 = 3" by simp
  have r: "(0::real) \<le> 3/5" "(3/5::real) < 1" "(0::real) \<le> 1/5" "(1/5::real) < 1"
    "(0::real) \<le> 0" "(0::real) < 1" "(0::real) \<le> 1/3" "(1/3::real) < 1" by simp_all
  have l0: "0 < length ?B0" unfolding board23 by simp
  have l1: "2 < length ?B1" unfolding board23_b1 fst_conv by simp
  have l2: "3 < length ?B2" unfolding board23_b2 fst_conv by simp
  have l3: "5 < length ?B3" unfolding board23_b3 fst_conv by simp
  have c1: "collapse ?B0 (int 3) 0 (3/5) = (?B1, Returned True)" unfolding i3 board23_b1 by simp
  have c2: "collapse ?B1 (int 3) 2 (1/5) = (?B2, Returned True)" unfolding i3 board23_b2 by simp
  have c3: "collapse ?B2 (int 3) 3 0 = (?B3, Returned True)" unfolding i3 board23_b3 by simp
  have c4: "collapse ?B3 (int 3) 5 (1/3) = (?B4, Returned True)" unfolding i3 board23_b4 by simp
  note r1 = reachable.step [OF reachable.fresh l0 r(1,2) c1]
  note r2 = reachable.step [OF r1 l1 r(3,4) c2]
  note r3 = reachable.step [OF r2 l2 r(5,6) c3]
  note r4 = reachable.step [OF r3 l3 r(7,8) c4]
  have n: "chooseNextTile ?B4 0 = Some 1" unfolding board23_b4 fst_conv by code_simp
  have c5: "collapse ?B4 3 1 0 = (?B5, Threw Contradiction)" unfolding board23_b5 by simp
  let ?st = "\<lparr>boardTiles = ?B4, collapsedTiles = 4\<rparr>"
  have "chooseNextTile (boardTiles ?st) 0 = Some 1
        \<and> collapse (boardTiles ?st) 3 1 0 = (?B5, Threw Contradiction)"
    using n c5 by simp
  with contradiction_surfaces [where st="?st" and ?rnd1.0=0 and n=1 and width=3 and ?rnd2.0=0
      and board''="?B5" and e=Contradiction]
  have d: "doCollapse ?st 3 0 0 = (?st\<lparr>boardTiles := ?B5\<rparr>, False)" by blast
  from r4 n c5 d show ?thesis by simp
qed

section \<open>No rollback after a contradiction\<close>

text \<open>
  Claim C10. When \<open>collapse\<close> of the tile at \<open>i\<close> throws the contradiction of a neighbor,
  on a board of positive width whose tile \<open>i\<close> has position \<open>i\<close>: tile \<open>i\<close> is on the board
  as \<open>collapse\<close> made it, collapsed, with the chosen facing and layout, its connections
  and no candidate; the directions split into those done, the failing one and those not
  reached; the failing neighbor is uncollapsed and has no candidate; and every other tile
  that is not the target of a direction done or of the failing one is exactly as it was
  before the call, so a neighbor that only a later direction reaches keeps its neighbor
  values and its candidates.
\<close>

theorem collapse_not_rolled_back:
  assumes "0 < width" and "i < length board" and "position (board ! i) = int i"
    and "collapse board width i rnd = (board', Threw Contradiction)"
  shows "\<exists>l ds1 d ds2 k.
      map_of layouts (fst (possibleTiles (board ! i) ! randomIndex rnd (length (possibleTiles (board ! i))))) = Some l
      \<and> board' ! i =
          (generateConnections
             ((board ! i)\<lparr>facing := fst (possibleTiles (board ! i) ! randomIndex rnd (length (possibleTiles (board ! i)))),
                          layout := l\<rparr>))
            \<lparr>collapsed := True, possibleTiles := []\<rparr>
      \<and> dirs = ds1 @ d # ds2
      \<and> getDir d (neighbors (board ! i)) = Some False \<and> targetIndex width (int i) d = int k
      \<and> k < length board \<and> \<not> collapsed (board' ! k) \<and> possibleTiles (board' ! k) = []
      \<and> (\<forall>j<length board. j \<noteq> i \<and> (\<forall>d' \<in> set (ds1 @ [d]). targetIndex width (int i) d' \<noteq> int j)
            \<longrightarrow> board' ! j = board ! j)"
proof (cases rule: collapse_cases [where b=board and i=i and w=width and rnd=rnd])
  case empty
  then show ?thesis using assms(4) by simp
next
  case undef
  then show ?thesis using assms(4) by simp
next
  case nokey
  then show ?thesis using assms(4) by simp
next
  case (chosen k0 l)
  define ti where "ti = (generateConnections ((board ! i)\<lparr>facing := fst (possibleTiles (board ! i) ! k0), layout := l\<rparr>))
                          \<lparr>collapsed := True, possibleTiles := []\<rparr>"
  let ?b1 = "board[i := ti]"
  have res: "board' = fst (cascade ?b1 width i dirs)" "snd (cascade ?b1 width i dirs) = Some Contradiction"
    using chosen(5) assms(4) by (auto simp: ti_def split: option.splits)
  from cascade_split [OF res(2)] obtain ds1 d ds2 c2 where
    s: "dirs = ds1 @ d # ds2" "cascade ?b1 width i ds1 = (c2, None)"
       "notifyDir c2 width i d = (board', Some Contradiction)"
    using res(1) by auto
  have i1: "i < length ?b1" "position (?b1 ! i) = int i" "?b1 ! i = ti"
    using assms(2,3) by (simp_all add: ti_def generateConnections_fields)
  have tn: "neighbors ti = neighbors (board ! i)" by (simp add: ti_def generateConnections_fields)
  have c2: "c2 ! i = ti" "length c2 = length board"
    using cascade_frame [OF assms(1) i1(1,2), of ds1] cascade_length [of ?b1 width i ds1] s(2) i1(3)
    by simp_all
  have all: "cascade ?b1 width i (ds1 @ [d]) = (board', Some Contradiction)"
    using cascade_append_error [OF s(2,3), of "[]"] by simp
  have fr: "board' ! i = ti"
    "\<And>j. j < length board \<Longrightarrow> j \<noteq> i \<Longrightarrow> \<forall>d' \<in> set (ds1 @ [d]). targetIndex width (int i) d' \<noteq> int j
          \<Longrightarrow> board' ! j = board ! j"
    using cascade_frame [OF assms(1) i1(1,2), of "ds1 @ [d]"] all i1(3) by auto
  from s(3) obtain k where
    k: "getDir d (neighbors (c2 ! i)) = Some False" "targetIndex width (position (c2 ! i)) d = int k"
       "k < length c2"
       "board' = c2[k := fst (findPossibleTiles (c2[k := findNeighbors c2 width (c2 ! k)]) width (findNeighbors c2 width (c2 ! k)))]"
       "snd (findPossibleTiles (c2[k := findNeighbors c2 width (c2 ! k)]) width (findNeighbors c2 width (c2 ! k)))
          = Some Contradiction"
    by (cases rule: notifyDir_cases [where b=c2 and i=i and d=d and w=width]) auto
  have e: "\<not> collapsed (board' ! k)" "possibleTiles (board' ! k) = []"
    using findPossibleTiles_contradiction k(3,4,5) by auto
  have "getDir d (neighbors (board ! i)) = Some False" "targetIndex width (int i) d = int k" "k < length board"
    using k(1,2,3) c2 tn i1 by simp_all
  then show ?thesis using chosen(2,4) fr e s(1) unfolding ti_def by blast
qed

theorem collapse_not_rolled_back_witness:
  "collapse (fst (collapse (fst (collapse (boardTiles (resetBoard 2 3)) 3 3 (3/5))) 3 5 (1/5))) 3 1 (1/5)
     = (fst (collapse (fst (collapse (fst (collapse (boardTiles (resetBoard 2 3)) 3 3 (3/5))) 3 5 (1/5))) 3 1 (1/5)), Threw Contradiction)
   \<and> collapsed (fst (collapse (fst (collapse (fst (collapse (boardTiles (resetBoard 2 3)) 3 3 (3/5))) 3 5 (1/5))) 3 1 (1/5)) ! 1)
   \<and> facing (fst (collapse (fst (collapse (fst (collapse (boardTiles (resetBoard 2 3)) 3 3 (3/5))) 3 5 (1/5))) 3 1 (1/5)) ! 1) = ''east''
   \<and> getConnector (fst (collapse (fst (collapse (fst (collapse (boardTiles (resetBoard 2 3)) 3 3 (3/5))) 3 5 (1/5))) 3 1 (1/5)) ! 1) South = Some ''010''
   \<and> possibleTiles (fst (collapse (fst (collapse (fst (collapse (boardTiles (resetBoard 2 3)) 3 3 (3/5))) 3 5 (1/5))) 3 1 (1/5)) ! 4) = []
   \<and> fst (collapse (fst (collapse (fst (collapse (boardTiles (resetBoard 2 3)) 3 3 (3/5))) 3 5 (1/5))) 3 1 (1/5)) ! 0 = fst (collapse (fst (collapse (boardTiles (resetBoard 2 3)) 3 3 (3/5))) 3 5 (1/5)) ! 0
   \<and> getDir East (neighbors (fst (collapse (fst (collapse (fst (collapse (boardTiles (resetBoard 2 3)) 3 3 (3/5))) 3 5 (1/5))) 3 1 (1/5)) ! 0)) = Some False"
proof -
  let ?A2 = "fst (collapse (fst (collapse (boardTiles (resetBoard 2 3)) 3 3 (3/5))) 3 5 (1/5))"
  let ?A3 = "fst (collapse ?A2 3 1 (1/5))"
  have w: "(0::int) < 3" by simp
  have l: "1 < length ?A2" unfolding board23_a2 fst_conv by simp
  have p: "position (?A2 ! 1) = int 1" unfolding board23_a2 fst_conv by simp
  have c: "collapse ?A2 3 1 (1/5) = (?A3, Threw Contradiction)" unfolding board23_a3 by simp
  from collapse_not_rolled_back [OF w l p c]
  have t: "collapsed (?A3 ! 1) \<and> possibleTiles (?A3 ! 1) = []" by auto
  have f: "facing (?A3 ! 1) = ''east''" "getConnector (?A3 ! 1) South = Some ''010''"
    "possibleTiles (?A3 ! 4) = []" "getDir East (neighbors (?A3 ! 0)) = Some False"
    unfolding board23_a3 fst_conv by (simp_all add: getConnector_def)
  have s: "?A3 ! 0 = ?A2 ! 0" unfolding board23_a3 unfolding board23_a2 fst_conv by simp
  from c t f s show ?thesis by blast
qed

text \<open>
  The board that a thrown contradiction leaves is not one to go on with. In the run above
  tile 0 still takes its east neighbor for uncollapsed and has kept \<open>east\<close> among its
  candidates. A further \<open>collapse\<close> of tile 0 that chooses \<open>east\<close> returns \<open>true\<close>, and the
  facing connectors of tiles 0 and 1 are then \<open>010\<close> and \<open>000\<close>.
\<close>

lemma edges_after_ignored_contradiction:
  "snd (collapse (fst (collapse (fst (collapse (fst (collapse (boardTiles (resetBoard 2 3)) 3 3 (3/5))) 3 5 (1/5))) 3 1 (1/5))) 3 0 0)
     = Returned True
   \<and> \<not> facingEdgesMatch
         (fst (collapse (fst (collapse (fst (collapse (fst (collapse (boardTiles (resetBoard 2 3)) 3 3 (3/5))) 3 5 (1/5))) 3 1 (1/5))) 3 0 0))
         3"
  unfolding board23_a3 fst_conv by code_simp

end
